theory Spec2Isabelle
  imports Complex_Main
begin

chapter \<open>The session layer of ink-llm-console\<close>

text \<open>
  A shallow embedding of \<^verbatim>\<open>src/services/llmService.ts\<close> (the class \<^verbatim>\<open>LLMService\<close>, the
  model registry and the default configuration), of the data model of
  \<^verbatim>\<open>src/types/index.ts\<close> and of the settings form of
  \<^verbatim>\<open>src/components/SettingsInterface.tsx\<close>, with the properties C1 to C10 of the
  specification. The provider adapters, the file system, the clock and \<^verbatim>\<open>path.join\<close> are
  parameters; \<^verbatim>\<open>parseFloat\<close>, \<^verbatim>\<open>parseInt\<close>, \<^verbatim>\<open>JSON.stringify\<close> and \<^verbatim>\<open>JSON.parse\<close> are
  modelled from ECMAScript as far as the program uses them.
\<close>

section \<open>Data model (types/index.ts)\<close>

text \<open>
  \<^verbatim>\<open>Message.role\<close> is the union \<^verbatim>\<open>'user' | 'assistant' | 'system'\<close>, \<^verbatim>\<open>LLMConfig.provider\<close>
  the union \<^verbatim>\<open>'anthropic' | 'openai'\<close>; both become datatypes. Strings are lists of
  8-bit code units.
\<close>

datatype role = User | Assistant | System

record Message =
  role :: role
  content :: string

datatype provider = Anthropic | OpenAI

fun provider_name :: "provider \<Rightarrow> string" where
  "provider_name Anthropic = ''anthropic''"
| "provider_name OpenAI = ''openai''"

text \<open>
  A JavaScript number is a finite value, \<^verbatim>\<open>NaN\<close> or an infinity. A finite value is kept as
  a rational, and \<^verbatim>\<open>-0\<close> is \<^verbatim>\<open>0\<close>. A numeric field of an object that went through
  \<^verbatim>\<open>JSON.parse(JSON.stringify(...))\<close> can hold \<^verbatim>\<open>null\<close>.
\<close>

datatype jsnumber = Finite rat | NaN | PosInfinity | NegInfinity

datatype numfield = Num jsnumber | Null

text \<open>
  Optional properties (\<^verbatim>\<open>apiKey?\<close>, \<^verbatim>\<open>systemPrompt?\<close>, ...) are \<open>option\<close>s: \<open>None\<close> is
  \<^verbatim>\<open>undefined\<close>. \<^verbatim>\<open>saveFormat\<close> is kept as the string found at run time, so that values
  other than \<^verbatim>\<open>'json'\<close> and \<^verbatim>\<open>'markdown'\<close> can be asked about.
\<close>

record LLMConfig =
  provider :: provider
  model :: string
  apiKey :: "string option"
  temperature :: numfield
  maxTokens :: numfield
  systemPrompt :: "string option"
  saveDirectory :: "string option"
  saveFormat :: "string option"

text \<open>\<^verbatim>\<open>Partial<LLMConfig>\<close>: every property may be absent (\<open>None\<close>).\<close>

record PartialLLMConfig =
  p_provider :: "provider option"
  p_model :: "string option"
  p_apiKey :: "string option"
  p_temperature :: "numfield option"
  p_maxTokens :: "numfield option"
  p_systemPrompt :: "string option"
  p_saveDirectory :: "string option"
  p_saveFormat :: "string option"

text \<open>The variables of \<^verbatim>\<open>process.env\<close> that the program reads.\<close>

record process_env =
  ANTHROPIC_API_KEY :: "string option"
  OPENAI_API_KEY :: "string option"
  CHAT_SAVE_DIRECTORY :: "string option"
  CHAT_SAVE_FORMAT :: "string option"

section \<open>JavaScript operators used by the source\<close>

text \<open>Truthiness of an optional string: \<^verbatim>\<open>undefined\<close> and \<^verbatim>\<open>''\<close> are falsy.\<close>

fun truthy :: "string option \<Rightarrow> bool" where
  "truthy None = False"
| "truthy (Some s) = (s \<noteq> [])"

text \<open>\<^verbatim>\<open>a || b\<close> on optional strings.\<close>

definition or_else :: "string option \<Rightarrow> string option \<Rightarrow> string option" where
  "or_else a b = (if truthy a then a else b)"

text \<open>\<^verbatim>\<open>a || 'literal'\<close>: the result is a string.\<close>

definition or_default :: "string option \<Rightarrow> string \<Rightarrow> string" where
  "or_default a d = (case a of Some s \<Rightarrow> (if s \<noteq> [] then s else d) | None \<Rightarrow> d)"

text \<open>Truthiness of a number: \<^verbatim>\<open>NaN\<close> and zero are falsy.\<close>

fun truthy_num :: "jsnumber \<Rightarrow> bool" where
  "truthy_num (Finite r) = (r \<noteq> 0)"
| "truthy_num NaN = False"
| "truthy_num PosInfinity = True"
| "truthy_num NegInfinity = True"

text \<open>\<^verbatim>\<open>x || d\<close> on numbers.\<close>

definition num_or :: "jsnumber \<Rightarrow> jsnumber \<Rightarrow> jsnumber" where
  "num_or x d = (if truthy_num x then x else d)"

text \<open>
  What \<^verbatim>\<open>JSON.parse(JSON.stringify(o))\<close> does to a numeric property: a finite number
  comes back, \<^verbatim>\<open>NaN\<close> and the infinities are written as \<^verbatim>\<open>null\<close>.
\<close>

fun json_num :: "numfield \<Rightarrow> numfield" where
  "json_num (Num (Finite r)) = Num (Finite r)"
| "json_num (Num NaN) = Null"
| "json_num (Num PosInfinity) = Null"
| "json_num (Num NegInfinity) = Null"
| "json_num Null = Null"

text \<open>
  A thrown value: an \<^verbatim>\<open>Error\<close> object with its message, or any other value with the
  string \<^verbatim>\<open>String(error)\<close> gives for it.
\<close>

datatype thrown = ErrorObject string | OtherValue string

text \<open>\<^verbatim>\<open>error instanceof Error ? error.message : String(error)\<close>\<close>

fun error_message :: "thrown \<Rightarrow> string" where
  "error_message (ErrorObject m) = m"
| "error_message (OtherValue s) = s"

section \<open>The provider/model registry and the default configuration (llmService.ts)\<close>

fun availableModels :: "provider \<Rightarrow> string list" where
  "availableModels Anthropic =
     [''claude-3-7-sonnet-20250219'',
      ''claude-3-5-haiku-20241022'',
      ''claude-3-5-sonnet-20241022'',
      ''claude-3-5-sonnet-20240620'',
      ''claude-3-opus-20240229'',
      ''claude-3-sonnet-20240229'',
      ''claude-3-haiku-20240307'']"
| "availableModels OpenAI =
     [''gpt-4-turbo'',
      ''gpt-4o'',
      ''gpt-4'',
      ''gpt-3.5-turbo'']"

definition defaultConfig :: "process_env \<Rightarrow> LLMConfig" where
  "defaultConfig env =
     \<lparr> provider = Anthropic,
       model = ''claude-3-opus-20240229'',
       apiKey = None,
       temperature = Num (Finite (7 / 10)),
       maxTokens = Num (Finite 1000),
       systemPrompt = Some ''You are a helpful AI assistant.'',
       saveDirectory = Some (or_default (CHAT_SAVE_DIRECTORY env) ''./chats''),
       saveFormat = Some (if CHAT_SAVE_FORMAT env = Some ''markdown'' then ''markdown'' else ''json'') \<rparr>"

section \<open>The service object and the heap (class LLMService)\<close>

text \<open>
  The adapter objects \<^verbatim>\<open>ChatAnthropic\<close> and \<^verbatim>\<open>ChatOpenAI\<close> are opaque: an object is the
  class it was built from and the arguments its constructor received.
\<close>

datatype chat_class = ChatAnthropic | ChatOpenAI

record chat_model =
  cls :: chat_class
  arg_apiKey :: "string option"
  modelName :: string
  arg_temperature :: numfield
  arg_maxTokens :: numfield

text \<open>
  Objects have identity: the configuration objects and the adapter objects live in a
  heap, at references handed out by a counter, and the service holds the two references
  \<^verbatim>\<open>this.config\<close> and \<^verbatim>\<open>this.model\<close>.
\<close>

type_synonym ref = nat

text \<open>
  The constructors of the two adapter classes are a parameter of the model: for a class
  and its arguments, the constructor throws (\<open>Some\<close>) or returns the object (\<open>None\<close>).
\<close>

type_synonym adapter_constructor = "chat_model \<Rightarrow> thrown option"

record world =
  configs :: "ref \<Rightarrow> LLMConfig option"
  models :: "ref \<Rightarrow> chat_model option"
  nextRef :: ref
  this_config :: ref
  this_model :: ref

text \<open>
  The class and the argument object of the call \<^verbatim>\<open>new ChatAnthropic({...})\<close> or
  \<^verbatim>\<open>new ChatOpenAI({...})\<close>; the constructor of the service and \<^verbatim>\<open>updateConfig\<close> hold the
  same \<^verbatim>\<open>if\<close>/\<^verbatim>\<open>else\<close> block. Whether the call returns is up to the adapter constructor.
\<close>

definition makeModel :: "process_env \<Rightarrow> LLMConfig \<Rightarrow> chat_model" where
  "makeModel env cfg =
     (if provider cfg = Anthropic then
        \<lparr> cls = ChatAnthropic,
          arg_apiKey = or_else (apiKey cfg) (ANTHROPIC_API_KEY env),
          modelName = (if model cfg \<noteq> [] then model cfg else ''claude-3-opus-20240229''),
          arg_temperature = temperature cfg,
          arg_maxTokens = maxTokens cfg \<rparr>
      else
        \<lparr> cls = ChatOpenAI,
          arg_apiKey = or_else (apiKey cfg) (OPENAI_API_KEY env),
          modelName = (if model cfg \<noteq> [] then model cfg else ''gpt-4-turbo''),
          arg_temperature = temperature cfg,
          arg_maxTokens = maxTokens cfg \<rparr>)"

text \<open>\<^verbatim>\<open>new\<close>: the object is stored at the next free reference.\<close>

definition new_model :: "chat_model \<Rightarrow> world \<Rightarrow> ref \<times> world" where
  "new_model m w =
     (nextRef w, w\<lparr> models := (models w)(nextRef w := Some m), nextRef := Suc (nextRef w) \<rparr>)"

definition new_config :: "LLMConfig \<Rightarrow> world \<Rightarrow> ref \<times> world" where
  "new_config c w =
     (nextRef w, w\<lparr> configs := (configs w)(nextRef w := Some c), nextRef := Suc (nextRef w) \<rparr>)"

text \<open>
  The constructor of the service stores the reference it is given
  (\<^verbatim>\<open>this.config = config\<close>), then builds the adapter. When the adapter constructor throws,
  so does \<^verbatim>\<open>new LLMService(...)\<close> (\<open>Inl\<close>) and there is no service. A reference always
  points to an object; for one that does not, the model leaves the world as it is.
\<close>

definition LLMService_new ::
  "adapter_constructor \<Rightarrow> process_env \<Rightarrow> ref \<Rightarrow> world \<Rightarrow> thrown + world"
where
  "LLMService_new ctor env config w =
     (case configs w config of
        None \<Rightarrow> Inr w
      | Some cfg \<Rightarrow>
          (case ctor (makeModel env cfg) of
             Some error \<Rightarrow> Inl error
           | None \<Rightarrow>
               (let (m, w1) = new_model (makeModel env cfg) w
                in Inr (w1\<lparr> this_config := config, this_model := m \<rparr>))))"

text \<open>\<^verbatim>\<open>getConfig\<close> returns \<^verbatim>\<open>this.config\<close>: the reference itself.\<close>

definition getConfig :: "world \<Rightarrow> ref" where
  "getConfig w = this_config w"

text \<open>Reading the object behind a reference that is live.\<close>

definition deref :: "world \<Rightarrow> ref \<Rightarrow> LLMConfig" where
  "deref w r = the (configs w r)"

text \<open>A caller's assignment to a property of a configuration object it holds.\<close>

definition mutate :: "ref \<Rightarrow> (LLMConfig \<Rightarrow> LLMConfig) \<Rightarrow> world \<Rightarrow> world" where
  "mutate r f w = w\<lparr> configs := (configs w)(r := map_option f (configs w r)) \<rparr>"

text \<open>
  Lines 71 to 85 of \<^verbatim>\<open>updateConfig\<close>: a shallow copy of the current configuration, with
  every property of \<^verbatim>\<open>newConfig\<close> that is not \<^verbatim>\<open>undefined\<close> assigned over it.
\<close>

definition mergeConfig :: "LLMConfig \<Rightarrow> PartialLLMConfig \<Rightarrow> LLMConfig" where
  "mergeConfig cur new =
     \<lparr> provider = (case p_provider new of Some v \<Rightarrow> v | None \<Rightarrow> provider cur),
       model = (case p_model new of Some v \<Rightarrow> v | None \<Rightarrow> model cur),
       apiKey = (case p_apiKey new of Some v \<Rightarrow> Some v | None \<Rightarrow> apiKey cur),
       temperature = (case p_temperature new of Some v \<Rightarrow> v | None \<Rightarrow> temperature cur),
       maxTokens = (case p_maxTokens new of Some v \<Rightarrow> v | None \<Rightarrow> maxTokens cur),
       systemPrompt = (case p_systemPrompt new of Some v \<Rightarrow> Some v | None \<Rightarrow> systemPrompt cur),
       saveDirectory = (case p_saveDirectory new of Some v \<Rightarrow> Some v | None \<Rightarrow> saveDirectory cur),
       saveFormat = (case p_saveFormat new of Some v \<Rightarrow> Some v | None \<Rightarrow> saveFormat cur) \<rparr>"

text \<open>
  \<^verbatim>\<open>JSON.parse(JSON.stringify(updatedConfig))\<close> as a value: strings come back as they
  are, absent properties stay absent, numbers go through \<open>json_num\<close>.
\<close>

definition json_copy :: "LLMConfig \<Rightarrow> LLMConfig" where
  "json_copy c = c\<lparr> temperature := json_num (temperature c), maxTokens := json_num (maxTokens c) \<rparr>"

text \<open>
  \<^verbatim>\<open>updateConfig\<close>: the merged configuration is stored as a new object (the result of
  \<^verbatim>\<open>JSON.parse\<close>) and \<^verbatim>\<open>this.config\<close> is set to it (line 88); then the adapter
  constructor is called on it (lines 91 to 105), in every case. When the constructor
  returns, \<^verbatim>\<open>this.model\<close> is set to the new object; when it throws, \<^verbatim>\<open>updateConfig\<close> throws
  the same value, with \<^verbatim>\<open>this.config\<close> replaced already and \<^verbatim>\<open>this.model\<close> as it was. The
  result is what was thrown (if anything) and the world after the call.
\<close>

definition updateConfig ::
  "adapter_constructor \<Rightarrow> process_env \<Rightarrow> PartialLLMConfig \<Rightarrow> world \<Rightarrow> thrown option \<times> world"
where
  "updateConfig ctor env newConfig w =
     (let updatedConfig = mergeConfig (deref w (this_config w)) newConfig;
          (c, w1) = new_config (json_copy updatedConfig) w;
          w2 = w1\<lparr> this_config := c \<rparr>
      in case ctor (makeModel env (deref w2 (this_config w2))) of
           Some error \<Rightarrow> (Some error, w2)
         | None \<Rightarrow>
             (let (m, w3) = new_model (makeModel env (deref w2 (this_config w2))) w2
              in (None, w3\<lparr> this_model := m \<rparr>)))"

section \<open>Number parsing (the globals parseFloat and parseInt)\<close>

text \<open>
  White space that \<^verbatim>\<open>parseFloat\<close> and \<^verbatim>\<open>parseInt\<close> trim from the start of the input:
  TAB, LF, VT, FF, CR, SP and NBSP (the white space and line terminators that are single
  8-bit code units).
\<close>

definition is_ws :: "char \<Rightarrow> bool" where
  "is_ws c = ((of_char c :: nat) \<in> {9, 10, 11, 12, 13, 32, 160})"

definition is_digit :: "char \<Rightarrow> bool" where
  "is_digit c = (48 \<le> (of_char c :: nat) \<and> (of_char c :: nat) \<le> 57)"

definition digit_val :: "char \<Rightarrow> nat" where
  "digit_val c = of_char c - 48"

definition digits_val :: "string \<Rightarrow> nat" where
  "digits_val ds = foldl (\<lambda>a c. 10 * a + digit_val c) 0 ds"

definition is_hex :: "char \<Rightarrow> bool" where
  "is_hex c = (is_digit c \<or> (65 \<le> (of_char c :: nat) \<and> (of_char c :: nat) \<le> 70)
                \<or> (97 \<le> (of_char c :: nat) \<and> (of_char c :: nat) \<le> 102))"

definition hex_val :: "char \<Rightarrow> nat" where
  "hex_val c = (if is_digit c then of_char c - 48
                else if (of_char c :: nat) \<le> 70 then of_char c - 55
                else of_char c - 87)"

definition hex_digits_val :: "string \<Rightarrow> nat" where
  "hex_digits_val ds = foldl (\<lambda>a c. 16 * a + hex_val c) 0 ds"

text \<open>An optional sign: the factor and the rest of the input.\<close>

fun take_sign :: "string \<Rightarrow> rat \<times> string" where
  "take_sign [] = (1, [])"
| "take_sign (c # cs) =
     (if c = CHR ''-'' then (- 1, cs) else if c = CHR ''+'' then (1, cs) else (1, c # cs))"

text \<open>
  The exponent part of a decimal literal, if the input starts with one: \<^verbatim>\<open>e\<close> or \<^verbatim>\<open>E\<close>, an
  optional sign, and at least one digit. Otherwise the exponent is 0 (the longest prefix
  that is a literal ends before the \<^verbatim>\<open>e\<close>).
\<close>

definition exponent_part :: "string \<Rightarrow> int" where
  "exponent_part s =
     (case s of
        [] \<Rightarrow> 0
      | c # cs \<Rightarrow>
          if c = CHR ''e'' \<or> c = CHR ''E'' then
            (let (sg, ds) = take_sign cs; es = takeWhile is_digit ds
             in if es = [] then 0
                else if sg < 0 then - int (digits_val es) else int (digits_val es))
          else 0)"

text \<open>\<open>10\<close> to an integer power, as a rational.\<close>

definition pow10 :: "int \<Rightarrow> rat" where
  "pow10 e = (if 0 \<le> e then 10 ^ nat e else 1 / 10 ^ nat (- e))"

text \<open>
  The number value of a mathematical value, as far as the program can tell numbers apart:
  a value at or beyond \<open>2^1024 - 2^970\<close> (half a unit above the largest double) rounds to
  an infinity, a value within \<open>2^-1075\<close> of zero (half the smallest double) rounds to
  zero. In between, the value is kept as it is: the rounding of a value in range to the
  nearest double is not part of the model.
\<close>

definition to_double :: "rat \<Rightarrow> jsnumber" where
  "to_double x =
     (if 2 ^ 1024 - 2 ^ 970 \<le> x then PosInfinity
      else if x \<le> - (2 ^ 1024 - 2 ^ 970) then NegInfinity
      else if \<bar>x\<bar> \<le> 1 / 2 ^ 1075 then Finite 0
      else Finite x)"

text \<open>
  \<^verbatim>\<open>parseFloat\<close>: leading white space is trimmed, then the longest prefix that is a
  \<^verbatim>\<open>StrDecimalLiteral\<close> (sign, then \<^verbatim>\<open>Infinity\<close> or digits with an optional fraction and
  exponent) gives the value; with no such prefix the result is \<^verbatim>\<open>NaN\<close>.
\<close>

definition parseFloat :: "string \<Rightarrow> jsnumber" where
  "parseFloat input =
     (let (sg, s) = take_sign (dropWhile is_ws input)
      in if take 8 s = ''Infinity'' then (if sg < 0 then NegInfinity else PosInfinity)
         else
           (let ips = takeWhile is_digit s;
                r1 = dropWhile is_digit s;
                dot = (r1 \<noteq> [] \<and> hd r1 = CHR ''.'');
                fps = (if dot then takeWhile is_digit (tl r1) else []);
                r2 = (if dot then dropWhile is_digit (tl r1) else r1)
            in if ips = [] \<and> fps = [] then NaN
               else to_double (sg * (of_nat (digits_val ips) + of_nat (digits_val fps) / 10 ^ length fps)
                                 * pow10 (exponent_part r2))))"

text \<open>
  \<^verbatim>\<open>parseInt\<close> with no radix: leading white space is trimmed, a sign is read, a prefix
  \<^verbatim>\<open>0x\<close>/\<^verbatim>\<open>0X\<close> selects radix 16, and the longest run of digits of the radix gives the
  value; with no digit the result is \<^verbatim>\<open>NaN\<close>.
\<close>

definition parseInt :: "string \<Rightarrow> jsnumber" where
  "parseInt input =
     (let (sg, s) = take_sign (dropWhile is_ws input)
      in if take 2 s = ''0x'' \<or> take 2 s = ''0X'' then
           (let z = takeWhile is_hex (drop 2 s)
            in if z = [] then NaN else to_double (sg * of_nat (hex_digits_val z)))
         else
           (let z = takeWhile is_digit s
            in if z = [] then NaN else to_double (sg * of_nat (digits_val z))))"

section \<open>The settings form (components/SettingsInterface.tsx)\<close>

text \<open>The state variables of the component that \<^verbatim>\<open>saveSettings\<close> reads.\<close>

record SettingsForm =
  f_provider :: provider
  f_model :: string
  f_apiKey :: string
  f_temperature :: string
  f_maxTokens :: string
  f_systemPrompt :: string
  f_saveFormat :: string

text \<open>
  The effect that runs when \<^verbatim>\<open>provider\<close> changes (and once after the first render): a
  model that is not in the list of the selected provider is replaced by the first entry
  of that list.
\<close>

definition providerEffect :: "SettingsForm \<Rightarrow> SettingsForm" where
  "providerEffect f =
     (if f_model f \<notin> set (availableModels (f_provider f))
      then f\<lparr> f_model := hd (availableModels (f_provider f)) \<rparr>
      else f)"

text \<open>The object literal \<^verbatim>\<open>newConfig\<close> of \<^verbatim>\<open>saveSettings\<close>.\<close>

definition settings_newConfig :: "world \<Rightarrow> SettingsForm \<Rightarrow> LLMConfig" where
  "settings_newConfig w f =
     \<lparr> provider = f_provider f,
       model = f_model f,
       apiKey = (if f_apiKey f \<noteq> [] then Some (f_apiKey f) else None),
       temperature = Num (num_or (parseFloat (f_temperature f)) (Finite (7 / 10))),
       maxTokens = Num (num_or (parseInt (f_maxTokens f)) (Finite 1000)),
       systemPrompt = (if f_systemPrompt f \<noteq> [] then Some (f_systemPrompt f) else None),
       saveDirectory = saveDirectory (deref w (getConfig w)),
       saveFormat = Some (f_saveFormat f) \<rparr>"

text \<open>
  \<^verbatim>\<open>JSON.parse(JSON.stringify(newConfig))\<close>, the argument of \<^verbatim>\<open>updateConfig\<close>: the
  properties that are \<^verbatim>\<open>undefined\<close> are not written, so they are absent from the result.
\<close>

definition json_partial :: "LLMConfig \<Rightarrow> PartialLLMConfig" where
  "json_partial c =
     \<lparr> p_provider = Some (provider c),
       p_model = Some (model c),
       p_apiKey = apiKey c,
       p_temperature = Some (json_num (temperature c)),
       p_maxTokens = Some (json_num (maxTokens c)),
       p_systemPrompt = systemPrompt c,
       p_saveDirectory = saveDirectory c,
       p_saveFormat = saveFormat c \<rparr>"

text \<open>
  \<^verbatim>\<open>saveSettings\<close>: the call of \<^verbatim>\<open>updateConfig\<close>; when it throws, \<^verbatim>\<open>onSave\<close> is not reached.
  Nothing else in \<^verbatim>\<open>saveSettings\<close> can throw.
\<close>

definition saveSettings ::
  "adapter_constructor \<Rightarrow> process_env \<Rightarrow> SettingsForm \<Rightarrow> world \<Rightarrow> thrown option \<times> world"
where
  "saveSettings ctor env f w = updateConfig ctor env (json_partial (settings_newConfig w f)) w"

text \<open>The configuration that is live in a world.\<close>

definition live :: "world \<Rightarrow> LLMConfig" where
  "live w = deref w (getConfig w)"

section \<open>Sending a conversation (LLMService.sendMessage)\<close>

datatype lc_message = HumanMessage string | AIMessage string | SystemMessage string

definition convertToLangChainMessages :: "Message list \<Rightarrow> lc_message list" where
  "convertToLangChainMessages messages =
     map (\<lambda>msg. if role msg = User then HumanMessage (content msg)
                else if role msg = Assistant then AIMessage (content msg)
                else SystemMessage (content msg))
         messages"

text \<open>
  Lines 50 to 55: the sequence handed to \<^verbatim>\<open>this.model.invoke\<close>. \<^verbatim>\<open>messages\<close> is only read
  (\<^verbatim>\<open>map\<close>, \<^verbatim>\<open>some\<close>); the system message is put in front of the converted copy.
\<close>

definition outgoing :: "LLMConfig \<Rightarrow> Message list \<Rightarrow> lc_message list" where
  "outgoing cfg messages =
     (let langchainMessages = convertToLangChainMessages messages
      in if truthy (systemPrompt cfg) \<and> \<not> list_ex (\<lambda>msg. role msg = System) messages
         then SystemMessage (the (systemPrompt cfg)) # langchainMessages
         else langchainMessages)"

text \<open>
  \<^verbatim>\<open>sendMessage\<close>. The adapter's \<^verbatim>\<open>invoke\<close> is the opaque provider call: given the adapter
  object and the sequence, it returns the text of the reply or throws. The method
  assigns nothing, so the world is an argument and not a result; the outcome is the
  reply (\<open>Inr\<close>) or the message of the \<^verbatim>\<open>Error\<close> thrown (\<open>Inl\<close>).
\<close>

definition sendMessage ::
  "(chat_model \<Rightarrow> lc_message list \<Rightarrow> thrown + string) \<Rightarrow> world \<Rightarrow> Message list \<Rightarrow> string + string"
where
  "sendMessage invoke w messages =
     (let cfg = deref w (this_config w)
      in case invoke (the (models w (this_model w))) (outgoing cfg messages) of
           Inr response \<Rightarrow> Inr response
         | Inl error \<Rightarrow>
             Inl (''Failed to get response from '' @ provider_name (provider cfg) @ '': ''
                  @ error_message error))"

section \<open>JSON text (JSON.stringify with indentation 2)\<close>

abbreviation dq :: char where "dq \<equiv> CHR 0x22"
abbreviation bs :: char where "bs \<equiv> CHR 0x5C"
abbreviation nl :: char where "nl \<equiv> CHR 0x0A"

text \<open>
  JSON values without numbers: the object that \<^verbatim>\<open>saveChat\<close> writes holds strings, one
  array and objects only.
\<close>

datatype json = JNull | JBool bool | JStr string | JArr "json list" | JObj "(string \<times> json) list"

definition hex_char :: "nat \<Rightarrow> char" where
  "hex_char n = (if n < 10 then char_of (48 + n) else char_of (87 + n))"

text \<open>
  \<^verbatim>\<open>QuoteJSONString\<close> on one code unit: the short escapes, \<^verbatim>\<open>\u00XX\<close> for the other
  control characters, every other code unit as it is.
\<close>

definition quote_char :: "char \<Rightarrow> string" where
  "quote_char c =
     (if c = CHR 0x08 then [bs, CHR ''b'']
      else if c = CHR 0x09 then [bs, CHR ''t'']
      else if c = CHR 0x0A then [bs, CHR ''n'']
      else if c = CHR 0x0C then [bs, CHR ''f'']
      else if c = CHR 0x0D then [bs, CHR ''r'']
      else if c = dq then [bs, dq]
      else if c = bs then [bs, bs]
      else if (of_char c :: nat) < 32
        then [bs, CHR ''u'', CHR ''0'', CHR ''0'',
              hex_char (of_char c div 16), hex_char (of_char c mod 16)]
      else [c])"

definition quote :: "string \<Rightarrow> string" where
  "quote s = dq # concat (map quote_char s) @ [dq]"

definition indent :: "nat \<Rightarrow> string" where
  "indent l = replicate (2 * l) CHR '' ''"

fun join :: "string \<Rightarrow> string list \<Rightarrow> string" where
  "join sep [] = []"
| "join sep [x] = x"
| "join sep (x # y # ys) = x @ sep @ join sep (y # ys)"

text \<open>\<^verbatim>\<open>JSON.stringify(v, null, 2)\<close> is \<open>stringify 0 v\<close>; the first argument is the nesting depth.\<close>

fun stringify :: "nat \<Rightarrow> json \<Rightarrow> string" where
  "stringify l JNull = ''null''"
| "stringify l (JBool b) = (if b then ''true'' else ''false'')"
| "stringify l (JStr s) = quote s"
| "stringify l (JArr xs) =
     (if xs = [] then ''[]''
      else ''['' @ nl # indent (Suc l)
           @ join ('','' @ nl # indent (Suc l)) (map (stringify (Suc l)) xs)
           @ nl # indent l @ '']'')"
| "stringify l (JObj kvs) =
     (if kvs = [] then ''{}''
      else ''{'' @ nl # indent (Suc l)
           @ join ('','' @ nl # indent (Suc l))
               (map (\<lambda>(k, v). quote k @ '': '' @ stringify (Suc l) v) kvs)
           @ nl # indent l @ ''}'')"

section \<open>Reading JSON text (JSON.parse)\<close>

text \<open>
  A reader for the JSON grammar without number literals, by recursive descent. A string
  escape \<^verbatim>\<open>\uXXXX\<close> above \<^verbatim>\<open>00FF\<close> has no 8-bit code unit and is refused.
\<close>

definition is_json_ws :: "char \<Rightarrow> bool" where
  "is_json_ws c = (c = CHR '' '' \<or> c = CHR 0x09 \<or> c = CHR 0x0A \<or> c = CHR 0x0D)"

definition skip_ws :: "string \<Rightarrow> string" where
  "skip_ws s = dropWhile is_json_ws s"

definition unescape :: "char \<Rightarrow> char option" where
  "unescape e =
     (if e = dq then Some dq
      else if e = bs then Some bs
      else if e = CHR ''/'' then Some CHR ''/''
      else if e = CHR ''b'' then Some (CHR 0x08)
      else if e = CHR ''f'' then Some (CHR 0x0C)
      else if e = CHR ''n'' then Some (CHR 0x0A)
      else if e = CHR ''r'' then Some (CHR 0x0D)
      else if e = CHR ''t'' then Some (CHR 0x09)
      else None)"

definition hex4 :: "char \<Rightarrow> char \<Rightarrow> char \<Rightarrow> char \<Rightarrow> nat option" where
  "hex4 a b c d =
     (if is_hex a \<and> is_hex b \<and> is_hex c \<and> is_hex d
      then Some (((hex_val a * 16 + hex_val b) * 16 + hex_val c) * 16 + hex_val d)
      else None)"

text \<open>The characters of a string literal after the opening quote, up to the closing quote.\<close>

fun parse_chars :: "string \<Rightarrow> (string \<times> string) option" where
  "parse_chars [] = None"
| "parse_chars (c # cs) =
     (if c = dq then Some ([], cs)
      else if c = bs then
        (case cs of
           [] \<Rightarrow> None
         | e # r \<Rightarrow>
             if e = CHR ''u'' then
               (case r of
                  h1 # h2 # h3 # h4 # r' \<Rightarrow>
                    (case hex4 h1 h2 h3 h4 of
                       None \<Rightarrow> None
                     | Some n \<Rightarrow>
                         if n < 256
                         then map_option (\<lambda>(s, t). (char_of n # s, t)) (parse_chars r')
                         else None)
                | _ \<Rightarrow> None)
             else
               (case unescape e of
                  None \<Rightarrow> None
                | Some x \<Rightarrow> map_option (\<lambda>(s, t). (x # s, t)) (parse_chars r)))
      else if (of_char c :: nat) < 32 then None
      else map_option (\<lambda>(s, t). (c # s, t)) (parse_chars cs))"

lemma skip_ws_length: "skip_ws s = c # cs \<Longrightarrow> length cs < length s"
proof -
  assume a: "skip_ws s = c # cs"
  have "length (skip_ws s) \<le> length s"
    by (simp add: skip_ws_def length_dropWhile_le)
  with a show ?thesis by simp
qed

text \<open>
  A value; the elements of an array after its bracket; the members of an object after
  its brace. Each returns what it read and the rest of the text. The tests
  \<open>length r < length s\<close> make the recursion well-founded; they never fail
  (\<open>parse_elements_unguarded\<close>, \<open>parse_members_unguarded\<close> below).
\<close>

function parse_value :: "string \<Rightarrow> (json \<times> string) option"
  and parse_elements :: "string \<Rightarrow> (json list \<times> string) option"
  and parse_members :: "string \<Rightarrow> ((string \<times> json) list \<times> string) option"
where
  "parse_value s =
     (case skip_ws s of
        [] \<Rightarrow> None
      | c # cs \<Rightarrow>
          if c = dq then map_option (\<lambda>(t, r). (JStr t, r)) (parse_chars cs)
          else if c = CHR ''['' then
            (if take 1 (skip_ws cs) = '']'' then Some (JArr [], drop 1 (skip_ws cs))
             else map_option (\<lambda>(vs, r). (JArr vs, r)) (parse_elements cs))
          else if c = CHR ''{'' then
            (if take 1 (skip_ws cs) = ''}'' then Some (JObj [], drop 1 (skip_ws cs))
             else map_option (\<lambda>(kvs, r). (JObj kvs, r)) (parse_members cs))
          else if take 4 (c # cs) = ''null'' then Some (JNull, drop 4 (c # cs))
          else if take 4 (c # cs) = ''true'' then Some (JBool True, drop 4 (c # cs))
          else if take 5 (c # cs) = ''false'' then Some (JBool False, drop 5 (c # cs))
          else None)"
| "parse_elements s =
     (case parse_value s of
        None \<Rightarrow> None
      | Some (v, r) \<Rightarrow>
          (case skip_ws r of
             [] \<Rightarrow> None
           | c # r' \<Rightarrow>
               if c = CHR '']'' then Some ([v], r')
               else if c = CHR '','' \<and> length r' < length s
               then map_option (\<lambda>(vs, t). (v # vs, t)) (parse_elements r')
               else None))"
| "parse_members s =
     (case skip_ws s of
        [] \<Rightarrow> None
      | c # cs \<Rightarrow>
          if c = dq then
            (case parse_chars cs of
               None \<Rightarrow> None
             | Some (k, r) \<Rightarrow>
                 (case skip_ws r of
                    [] \<Rightarrow> None
                  | c2 # r2 \<Rightarrow>
                      if c2 = CHR '':'' \<and> length r2 < length s then
                        (case parse_value r2 of
                           None \<Rightarrow> None
                         | Some (v, r3) \<Rightarrow>
                             (case skip_ws r3 of
                                [] \<Rightarrow> None
                              | c3 # r4 \<Rightarrow>
                                  if c3 = CHR ''}'' then Some ([(k, v)], r4)
                                  else if c3 = CHR '','' \<and> length r4 < length s
                                  then map_option (\<lambda>(kvs, t). ((k, v) # kvs, t)) (parse_members r4)
                                  else None))
                      else None))
          else None)"
  by pat_completeness auto
termination
  by (relation "measures [\<lambda>x. case x of Inl s \<Rightarrow> length s | Inr (Inl s) \<Rightarrow> length s | Inr (Inr s) \<Rightarrow> length s,
                          \<lambda>x. case x of Inl s \<Rightarrow> 0 | Inr y \<Rightarrow> 1]")
     (auto dest: skip_ws_length)

declare parse_value.simps [simp del] parse_elements.simps [simp del] parse_members.simps [simp del]

text \<open>\<^verbatim>\<open>JSON.parse\<close>: one value, with nothing but white space after it.\<close>

definition JSON_parse :: "string \<Rightarrow> json option" where
  "JSON_parse s =
     (case parse_value s of
        None \<Rightarrow> None
      | Some (v, r) \<Rightarrow> if skip_ws r = [] then Some v else None)"

text \<open>
  Reading a parsed transcript: a property of an object (the last member of that name, as
  \<^verbatim>\<open>JSON.parse\<close> keeps it), and the messages that an array of message objects holds.
\<close>

definition field :: "string \<Rightarrow> json \<Rightarrow> json option" where
  "field k v = (case v of JObj kvs \<Rightarrow> map_of (rev kvs) k | _ \<Rightarrow> None)"

definition role_of_name :: "string \<Rightarrow> role option" where
  "role_of_name s =
     (if s = ''user'' then Some User
      else if s = ''assistant'' then Some Assistant
      else if s = ''system'' then Some System
      else None)"

definition message_of_json :: "json \<Rightarrow> Message option" where
  "message_of_json v =
     (case (field ''role'' v, field ''content'' v) of
        (Some (JStr r), Some (JStr c)) \<Rightarrow>
          map_option (\<lambda>x. \<lparr> role = x, content = c \<rparr>) (role_of_name r)
      | _ \<Rightarrow> None)"

definition messages_of_json :: "json \<Rightarrow> Message list option" where
  "messages_of_json v =
     (case v of
        JArr xs \<Rightarrow>
          if list_all (\<lambda>x. message_of_json x \<noteq> None) xs
          then Some (map (\<lambda>x. the (message_of_json x)) xs)
          else None
      | _ \<Rightarrow> None)"

section \<open>Saving a transcript (LLMService.saveChat)\<close>

text \<open>
  The file system is a parameter: a state \<open>'fs\<close> and the three calls of \<^verbatim>\<open>fs\<close> that
  \<^verbatim>\<open>saveChat\<close> makes, each of the two writing calls returning what it threw (if anything)
  and the state it left; \<^verbatim>\<open>path.join\<close> is a parameter as well.
\<close>

record 'fs fs_ops =
  existsSync :: "'fs \<Rightarrow> string \<Rightarrow> bool"
  mkdirSync :: "'fs \<Rightarrow> string \<Rightarrow> thrown option \<times> 'fs"
  writeFileSync :: "'fs \<Rightarrow> string \<Rightarrow> string \<Rightarrow> thrown option \<times> 'fs"
  path_join :: "string \<Rightarrow> string \<Rightarrow> string"

text \<open>
  \<^verbatim>\<open>saveChat\<close> reads the clock three times: \<^verbatim>\<open>toISOString()\<close> for the file name,
  \<^verbatim>\<open>toLocaleString()\<close> for the markdown title, \<^verbatim>\<open>toISOString()\<close> for the json object.
\<close>

record clock =
  iso_for_name :: string
  locale_for_title :: string
  iso_for_data :: string

definition role_name :: "role \<Rightarrow> string" where
  "role_name r = (case r of User \<Rightarrow> ''user'' | Assistant \<Rightarrow> ''assistant'' | System \<Rightarrow> ''system'')"

text \<open>\<^verbatim>\<open>this.config.saveDirectory || process.env.CHAT_SAVE_DIRECTORY || './chats'\<close>\<close>

definition save_dir :: "process_env \<Rightarrow> LLMConfig \<Rightarrow> string" where
  "save_dir env cfg = or_default (or_else (saveDirectory cfg) (CHAT_SAVE_DIRECTORY env)) ''./chats''"

text \<open>\<^verbatim>\<open>saveFormat === 'markdown' ? 'markdown' : 'json'\<close>\<close>

definition formatToUse :: "LLMConfig \<Rightarrow> string" where
  "formatToUse cfg = (if saveFormat cfg = Some ''markdown'' then ''markdown'' else ''json'')"

definition fileExtension :: "LLMConfig \<Rightarrow> string" where
  "fileExtension cfg = (if formatToUse cfg = ''markdown'' then ''md'' else ''json'')"

text \<open>\<^verbatim>\<open>.replace(/[:.]/g, '-')\<close>\<close>

definition timestamp :: "string \<Rightarrow> string" where
  "timestamp s = map (\<lambda>c. if c = CHR '':'' \<or> c = CHR ''.'' then CHR ''-'' else c) s"

definition is_alnum :: "char \<Rightarrow> bool" where
  "is_alnum c = (is_digit c \<or> (65 \<le> (of_char c :: nat) \<and> (of_char c :: nat) \<le> 90)
                  \<or> (97 \<le> (of_char c :: nat) \<and> (of_char c :: nat) \<le> 122))"

text \<open>
  \<^verbatim>\<open>toLowerCase\<close> on one 8-bit code unit: \<^verbatim>\<open>A\<close> to \<^verbatim>\<open>Z\<close> and the Latin-1 capitals move up
  by 32.
\<close>

definition toLowerCase :: "char \<Rightarrow> char" where
  "toLowerCase c =
     (if (65 \<le> (of_char c :: nat) \<and> (of_char c :: nat) \<le> 90)
         \<or> (192 \<le> (of_char c :: nat) \<and> (of_char c :: nat) \<le> 222 \<and> (of_char c :: nat) \<noteq> 215)
      then char_of ((of_char c :: nat) + 32) else c)"

text \<open>\<^verbatim>\<open>title.replace(/[^a-z0-9]/gi, '-').toLowerCase()\<close>\<close>

definition slug :: "string \<Rightarrow> string" where
  "slug title = map toLowerCase (map (\<lambda>c. if is_alnum c then c else CHR ''-'') title)"

text \<open>The template literals of lines 125 to 127; an absent or empty title is falsy.\<close>

definition filename :: "clock \<Rightarrow> LLMConfig \<Rightarrow> string option \<Rightarrow> string" where
  "filename clk cfg title =
     (if truthy title
      then timestamp (iso_for_name clk) @ ''-'' @ slug (the title) @ ''.'' @ fileExtension cfg
      else timestamp (iso_for_name clk) @ ''-chat.'' @ fileExtension cfg)"

text \<open>One step of the \<^verbatim>\<open>forEach\<close> of lines 139 to 147.\<close>

definition markdown_section :: "Message \<Rightarrow> string" where
  "markdown_section msg =
     (if role msg = System then ''## System'' @ [nl, nl] @ content msg @ [nl, nl] @ ''---'' @ [nl, nl]
      else if role msg = User then ''## User'' @ [nl, nl] @ content msg @ [nl, nl] @ ''---'' @ [nl, nl]
      else if role msg = Assistant then ''## Assistant'' @ [nl, nl] @ content msg @ [nl, nl] @ ''---'' @ [nl, nl]
      else [])"

definition markdownContent :: "clock \<Rightarrow> LLMConfig \<Rightarrow> Message list \<Rightarrow> string" where
  "markdownContent clk cfg messages =
     ''# Chat - '' @ locale_for_title clk @ [nl, nl]
     @ ''**Model**: '' @ model cfg @ '' ('' @ provider_name (provider cfg) @ '')'' @ [nl, nl]
     @ ''---'' @ [nl, nl]
     @ concat (map markdown_section messages)"

text \<open>A message object as JSON: its properties \<^verbatim>\<open>role\<close> and \<^verbatim>\<open>content\<close>, in that order.\<close>

definition message_json :: "Message \<Rightarrow> json" where
  "message_json msg = JObj [(''role'', JStr (role_name (role msg))), (''content'', JStr (content msg))]"

definition chatData :: "clock \<Rightarrow> LLMConfig \<Rightarrow> Message list \<Rightarrow> json" where
  "chatData clk cfg messages =
     JObj [(''timestamp'', JStr (iso_for_data clk)),
           (''model'', JStr (model cfg)),
           (''provider'', JStr (provider_name (provider cfg))),
           (''messages'', JArr (map message_json messages))]"

text \<open>The text handed to \<^verbatim>\<open>fs.writeFileSync\<close>.\<close>

definition file_content :: "clock \<Rightarrow> LLMConfig \<Rightarrow> Message list \<Rightarrow> string" where
  "file_content clk cfg messages =
     (if formatToUse cfg = ''markdown'' then markdownContent clk cfg messages
      else stringify 0 (chatData clk cfg messages))"

text \<open>
  \<^verbatim>\<open>saveChat\<close>: the path of the file (\<open>Inr\<close>), or the message of the \<^verbatim>\<open>Error\<close> that the
  \<^verbatim>\<open>catch\<close> block throws (\<open>Inl\<close>), with the file system as the calls left it. The
  \<^verbatim>\<open>console.error\<close> of the \<^verbatim>\<open>catch\<close> block is not modelled.
\<close>

definition saveChat ::
  "'fs fs_ops \<Rightarrow> process_env \<Rightarrow> clock \<Rightarrow> world \<Rightarrow> Message list \<Rightarrow> string option \<Rightarrow> 'fs
     \<Rightarrow> (string + string) \<times> 'fs"
where
  "saveChat ops env clk w messages title fs =
     (let cfg = deref w (this_config w);
          saveDir = save_dir env cfg;
          (thrown1, fs1) = (if \<not> existsSync ops fs saveDir then mkdirSync ops fs saveDir
                            else (None, fs))
      in case thrown1 of
           Some error \<Rightarrow> (Inl (''Failed to save chat: '' @ error_message error), fs1)
         | None \<Rightarrow>
             (let filePath = path_join ops saveDir (filename clk cfg title);
                  (thrown2, fs2) = writeFileSync ops fs1 filePath (file_content clk cfg messages)
              in case thrown2 of
                   Some error \<Rightarrow> (Inl (''Failed to save chat: '' @ error_message error), fs2)
                 | None \<Rightarrow> (Inr filePath, fs2)))"

section \<open>Well-formed worlds and the start of the program\<close>

text \<open>
  A world as the program has it: the references the service holds were handed out
  before, and \<^verbatim>\<open>this.config\<close> and \<^verbatim>\<open>this.model\<close> point to objects.
\<close>

definition well_formed :: "world \<Rightarrow> bool" where
  "well_formed w =
     (this_config w < nextRef w \<and> this_model w < nextRef w
      \<and> configs w (this_config w) \<noteq> None \<and> models w (this_model w) \<noteq> None)"

text \<open>
  Start of the program (index.tsx): a configuration object is the only object, and
  \<^verbatim>\<open>new LLMService(...)\<close> is run on it; the program passes the module's
  \<^verbatim>\<open>defaultConfig\<close>.
\<close>

definition boot_with :: "adapter_constructor \<Rightarrow> process_env \<Rightarrow> LLMConfig \<Rightarrow> thrown + world" where
  "boot_with ctor env cfg =
     LLMService_new ctor env 0
       \<lparr> configs = (\<lambda>r. None)(0 := Some cfg),
         models = (\<lambda>r. None),
         nextRef = 1,
         this_config = 0,
         this_model = 0 \<rparr>"

definition boot :: "adapter_constructor \<Rightarrow> process_env \<Rightarrow> thrown + world" where
  "boot ctor env = boot_with ctor env (defaultConfig env)"

text \<open>The world that the start leaves when the adapter constructor returns.\<close>

definition started :: "process_env \<Rightarrow> LLMConfig \<Rightarrow> world" where
  "started env cfg =
     \<lparr> configs = (\<lambda>r. None)(0 := Some cfg),
       models = (\<lambda>r. None)(1 := Some (makeModel env cfg)),
       nextRef = 2,
       this_config = 0,
       this_model = 1 \<rparr>"

section \<open>Inputs from which a number is read\<close>



section \<open>Inputs used in examples\<close>

text \<open>
  An adapter constructor as the LangChain classes behave: a call with no key (neither in
  the arguments nor in the environment) throws.
\<close>

definition needs_key :: adapter_constructor where
  "needs_key m =
     (if truthy (arg_apiKey m) then None
      else if cls m = ChatAnthropic then Some (ErrorObject ''Anthropic API key not found'')
      else Some (ErrorObject ''OpenAI or Azure OpenAI API key not found''))"

definition no_env :: process_env where
  "no_env = \<lparr> ANTHROPIC_API_KEY = None, OPENAI_API_KEY = None,
              CHAT_SAVE_DIRECTORY = None, CHAT_SAVE_FORMAT = None \<rparr>"

definition key_env :: process_env where
  "key_env = \<lparr> ANTHROPIC_API_KEY = Some ''sk-ant-example'', OPENAI_API_KEY = Some ''sk-example'',
               CHAT_SAVE_DIRECTORY = None, CHAT_SAVE_FORMAT = None \<rparr>"

definition openai_env :: process_env where
  "openai_env = \<lparr> ANTHROPIC_API_KEY = None, OPENAI_API_KEY = Some ''sk-example'',
                  CHAT_SAVE_DIRECTORY = None, CHAT_SAVE_FORMAT = None \<rparr>"

text \<open>The program after its start, with both keys in the environment.\<close>

definition running :: world where
  "running = started key_env (defaultConfig key_env)"

text \<open>A service made for the other provider, in an environment with its key only.\<close>

definition openai_config :: LLMConfig where
  "openai_config =
     \<lparr> provider = OpenAI, model = ''gpt-4-turbo'', apiKey = None,
       temperature = Num (Finite (7 / 10)), maxTokens = Num (Finite 1000),
       systemPrompt = None, saveDirectory = None, saveFormat = Some ''json'' \<rparr>"

definition no_change :: PartialLLMConfig where
  "no_change = \<lparr> p_provider = None, p_model = None, p_apiKey = None, p_temperature = None,
                 p_maxTokens = None, p_systemPrompt = None, p_saveDirectory = None,
                 p_saveFormat = None \<rparr>"

definition noon :: clock where
  "noon = \<lparr> iso_for_name = ''2024-05-06T12:00:00.000Z'',
            locale_for_title = ''5/6/2024, 12:00:00 PM'',
            iso_for_data = ''2024-05-06T12:00:00.001Z'' \<rparr>"

definition hi_hello :: "Message list" where
  "hi_hello = [\<lparr> role = User, content = ''hi'' \<rparr>, \<lparr> role = Assistant, content = ''hello'' \<rparr>]"

text \<open>The configuration of the scenario of section 8 of the specification.\<close>

definition demo_config :: LLMConfig where
  "demo_config =
     \<lparr> provider = Anthropic, model = ''m1'', apiKey = None,
       temperature = Num (Finite (7 / 10)), maxTokens = Num (Finite 1000),
       systemPrompt = None, saveDirectory = None, saveFormat = Some ''markdown'' \<rparr>"


text \<open>Whether the text \<open>p\<close> occurs in the text \<open>s\<close>.\<close>

fun occurs_in :: "string \<Rightarrow> string \<Rightarrow> bool" where
  "occurs_in p [] = (p = [])"
| "occurs_in p (c # cs) = (take (length p) (c # cs) = p \<or> occurs_in p cs)"

subsection \<open>A file system for examples\<close>

text \<open>
  Paths as Node's \<^verbatim>\<open>path.posix\<close> treats them. \<open>split_slash\<close> cuts a path at its slashes;
  \<open>normalize_segments\<close> drops empty and \<^verbatim>\<open>.\<close> segments and lets \<^verbatim>\<open>..\<close> remove the segment
  before it (above the start of a relative path it stays).
\<close>

fun split_slash :: "string \<Rightarrow> string \<Rightarrow> string list" where
  "split_slash acc [] = [rev acc]"
| "split_slash acc (c # cs) =
     (if c = CHR ''/'' then rev acc # split_slash [] cs else split_slash (c # acc) cs)"

fun normalize_segments :: "bool \<Rightarrow> string list \<Rightarrow> string list \<Rightarrow> string list" where
  "normalize_segments up res [] = rev res"
| "normalize_segments up res (x # xs) =
     (if x = [] \<or> x = ''.'' then normalize_segments up res xs
      else if x = ''..'' then
        (case res of
           y # ys \<Rightarrow>
             if y \<noteq> ''..'' then normalize_segments up ys xs
             else if up then normalize_segments up (''..'' # res) xs
             else normalize_segments up res xs
         | [] \<Rightarrow>
             if up then normalize_segments up (''..'' # res) xs
             else normalize_segments up res xs)
      else normalize_segments up (x # res) xs)"

definition posix_normalize :: "string \<Rightarrow> string" where
  "posix_normalize p =
     (if p = [] then ''.''
      else
        (let absolute = (hd p = CHR ''/'');
             trailing = (last p = CHR ''/'');
             body = join ''/'' (normalize_segments (\<not> absolute) [] (split_slash [] p))
         in if body = [] then (if absolute then ''/'' else if trailing then ''./'' else ''.'')
            else (if absolute then ''/'' else []) @ body @ (if trailing then ''/'' else [])))"

text \<open>\<^verbatim>\<open>path.join(a, b)\<close>: the arguments that are not empty, joined by a slash and normalized.\<close>

definition posix_join :: "string \<Rightarrow> string \<Rightarrow> string" where
  "posix_join a b =
     (if filter (\<lambda>x. x \<noteq> []) [a, b] = [] then ''.''
      else posix_normalize (join ''/'' (filter (\<lambda>x. x \<noteq> []) [a, b])))"

text \<open>The directory of a normalized path: the path without its last segment.\<close>

definition posix_dirname :: "string \<Rightarrow> string" where
  "posix_dirname p =
     (let segs = butlast (filter (\<lambda>x. x \<noteq> []) (split_slash [] p))
      in if hd p = CHR ''/'' then CHR ''/'' # join ''/'' segs
         else if segs = [] then ''.'' else join ''/'' segs)"

text \<open>
  A disk: the directories that exist and the files with their texts, both by normalized
  path. \<^verbatim>\<open>mkdirSync\<close> makes the directory, \<^verbatim>\<open>writeFileSync\<close> puts the text in the file when
  the directory of the file exists and throws Node's error when it does not.
\<close>

record disk =
  dirs :: "string list"
  files :: "(string \<times> string) list"

definition read_file :: "disk \<Rightarrow> string \<Rightarrow> string option" where
  "read_file d p = map_of (files d) (posix_normalize p)"

definition disk_ops :: "disk fs_ops" where
  "disk_ops =
     \<lparr> existsSync = (\<lambda>d p. posix_normalize p \<in> set (dirs d) \<or> read_file d p \<noteq> None),
       mkdirSync = (\<lambda>d p. (None, d\<lparr> dirs := posix_normalize p # dirs d \<rparr>)),
       writeFileSync =
         (\<lambda>d p data.
            if posix_dirname (posix_normalize p) \<in> set (dirs d)
            then (None, d\<lparr> files := (posix_normalize p, data) # files d \<rparr>)
            else (Some (ErrorObject (''ENOENT: no such file or directory, open '' @ [CHR 0x27] @ p @ [CHR 0x27])), d)),
       path_join = posix_join \<rparr>"

text \<open>A disk with the working directory only.\<close>

definition empty_disk :: disk where
  "empty_disk = \<lparr> dirs = [''.''], files = [] \<rparr>"

text \<open>
  The same with no space left: a write makes the file, puts nothing in it and throws
  the error that Node reports for a full disk.
\<close>

definition full_disk_ops :: "disk fs_ops" where
  "full_disk_ops =
     disk_ops\<lparr> writeFileSync :=
       (\<lambda>d p data. (Some (ErrorObject ''ENOSPC: no space left on device, write''),
                     d\<lparr> files := (posix_normalize p, []) # files d \<rparr>)) \<rparr>"

text \<open>The same with a working directory in which no directory can be made.\<close>

definition read_only_ops :: "disk fs_ops" where
  "read_only_ops =
     disk_ops\<lparr> mkdirSync :=
       (\<lambda>d p. (Some (ErrorObject (''EACCES: permission denied, mkdir '' @ [CHR 0x27] @ p @ [CHR 0x27])), d)) \<rparr>"

section \<open>Facts about the definitions\<close>

text \<open>
  What the constructor, \<^verbatim>\<open>updateConfig\<close> and \<^verbatim>\<open>saveSettings\<close> leave, and what the number
  readers give on the inputs of the examples.
\<close>

lemma deref_this_config: "deref w (this_config w) = live w"
  by (simp add: live_def getConfig_def)

lemma live_updateConfig:
  "live (snd (updateConfig ctor env newConfig w)) = json_copy (mergeConfig (live w) newConfig)"
  by (simp add: live_def updateConfig_def new_config_def new_model_def deref_def getConfig_def
      Let_def split: option.splits)

lemma fst_updateConfig:
  "fst (updateConfig ctor env newConfig w)
     = ctor (makeModel env (json_copy (mergeConfig (live w) newConfig)))"
  by (simp add: live_def updateConfig_def new_config_def new_model_def deref_def getConfig_def
      Let_def split: option.splits)

lemma well_formed_updateConfig:
  "well_formed w \<Longrightarrow> well_formed (snd (updateConfig ctor env p w))"
  by (simp add: well_formed_def updateConfig_def new_config_def new_model_def Let_def
      split: option.splits)

lemma well_formed_started: "well_formed (started env cfg)"
  by (simp add: well_formed_def started_def)

lemma live_started: "live (started env cfg) = cfg"
  by (simp add: live_def started_def deref_def getConfig_def)

lemma boot_with_started:
  "ctor (makeModel env cfg) = None \<Longrightarrow> boot_with ctor env cfg = Inr (started env cfg)"
  by (simp add: boot_with_def LLMService_new_def new_model_def started_def)

lemma boot_with_throws:
  "ctor (makeModel env cfg) = Some e \<Longrightarrow> boot_with ctor env cfg = Inl e"
  by (simp add: boot_with_def LLMService_new_def)

lemma boot_running: "boot needs_key key_env = Inr running"
  unfolding boot_def running_def
  by (rule boot_with_started)
     (simp add: needs_key_def makeModel_def defaultConfig_def key_env_def or_else_def)

lemma boot_no_key: "boot needs_key no_env = Inl (ErrorObject ''Anthropic API key not found'')"
  unfolding boot_def
  by (rule boot_with_throws)
     (simp add: needs_key_def makeModel_def defaultConfig_def no_env_def or_else_def)

lemma boot_openai:
  "boot_with needs_key openai_env openai_config = Inr (started openai_env openai_config)"
  by (rule boot_with_started)
     (simp add: needs_key_def makeModel_def openai_config_def openai_env_def or_else_def)

lemma live_running: "live running = defaultConfig key_env"
  by (simp add: running_def live_started)

lemma json_num_idem: "json_num (json_num x) = json_num x"
  by (cases x rule: json_num.cases) simp_all

lemma hd_in_set: "xs \<noteq> [] \<Longrightarrow> hd xs \<in> set xs"
  by (cases xs) simp_all

lemma availableModels_nonempty: "availableModels p \<noteq> []"
  by (cases p) simp_all

lemma providerEffect_member:
  "f_model (providerEffect f) \<in> set (availableModels (f_provider (providerEffect f)))"
  by (simp add: providerEffect_def hd_in_set availableModels_nonempty)

lemma live_saveSettings:
  "live (snd (saveSettings ctor env f w)) =
     json_copy (mergeConfig (live w) (json_partial (settings_newConfig w f)))"
  by (simp add: saveSettings_def live_updateConfig)


lemma temperature_saveSettings:
  "temperature (live (snd (saveSettings ctor env f w)))
     = json_num (Num (num_or (parseFloat (f_temperature f)) (Finite (7 / 10))))"
  by (simp add: live_saveSettings mergeConfig_def json_copy_def json_partial_def
      settings_newConfig_def json_num_idem)

lemma maxTokens_saveSettings:
  "maxTokens (live (snd (saveSettings ctor env f w)))
     = json_num (Num (num_or (parseInt (f_maxTokens f)) (Finite 1000)))"
  by (simp add: live_saveSettings mergeConfig_def json_copy_def json_partial_def
      settings_newConfig_def json_num_idem)

lemma json_num_or_nonzero:
  "d \<noteq> 0 \<Longrightarrow> json_num (Num (num_or x (Finite d))) \<noteq> Num (Finite 0)"
  by (cases x) (simp_all add: num_or_def)


lemma to_double_zero: "to_double 0 = Finite 0"
  by (simp add: to_double_def)







lemma parseFloat_zero: "parseFloat ''0'' = Finite 0"
  by (simp add: parseFloat_def is_ws_def is_digit_def digits_val_def digit_val_def
      exponent_part_def pow10_def to_double_zero)

lemma parseInt_zero: "parseInt ''0'' = Finite 0"
  by (simp add: parseInt_def is_ws_def is_digit_def digits_val_def digit_val_def to_double_zero)



text \<open>
  \<^verbatim>\<open>saveChat\<close> after the step that looks for the save directory, and the file system of
  the examples on the paths of the examples.
\<close>

lemma slug_eq: "slug t = map (\<lambda>c. if is_alnum c then toLowerCase c else CHR ''-'') t"
  by (simp add: slug_def toLowerCase_def)

lemma saveChat_ready:
  assumes "(if \<not> existsSync ops fs (save_dir env (live w))
            then mkdirSync ops fs (save_dir env (live w)) else (None, fs)) = (None, fsm)"
  shows "saveChat ops env clk w C title fs =
     (case writeFileSync ops fsm
             (path_join ops (save_dir env (live w)) (filename clk (live w) title))
             (file_content clk (live w) C) of
        (thrown2, fs2) \<Rightarrow>
          (case thrown2 of
             Some error \<Rightarrow> (Inl (''Failed to save chat: '' @ error_message error), fs2)
           | None \<Rightarrow>
               (Inr (path_join ops (save_dir env (live w)) (filename clk (live w) title)), fs2)))"
  using assms
  by (simp add: saveChat_def deref_this_config Let_def split: prod.splits)

lemma boot_demo:
  "boot_with needs_key key_env (demo_config\<lparr> saveFormat := x \<rparr>)
     = Inr (started key_env (demo_config\<lparr> saveFormat := x \<rparr>))"
  by (rule boot_with_started)
     (simp add: needs_key_def makeModel_def demo_config_def key_env_def or_else_def)

lemma save_dir_default: "saveDirectory cfg = None \<Longrightarrow> save_dir key_env cfg = ''./chats''"
  by (simp add: save_dir_def key_env_def or_default_def or_else_def)

lemma save_dir_running: "save_dir key_env (live running) = ''./chats''"
  by (simp add: live_running defaultConfig_def save_dir_def key_env_def or_default_def or_else_def)

lemma normalize_chats: "posix_normalize ''./chats'' = ''chats''"
  by (simp add: posix_normalize_def)

lemma name_demo:
  "filename noon demo_config (Some ''Demo'') = ''2024-05-06T12-00-00-000Z-demo.md''"
  by (simp add: demo_config_def noon_def filename_def fileExtension_def formatToUse_def
      timestamp_def slug_def is_alnum_def is_digit_def toLowerCase_def char_of_def bit_0)

lemma path_demo:
  "posix_join ''./chats'' ''2024-05-06T12-00-00-000Z-demo.md''
     = ''chats/2024-05-06T12-00-00-000Z-demo.md''"
  by (simp add: posix_join_def posix_normalize_def)

lemma normal_demo:
  "posix_normalize ''chats/2024-05-06T12-00-00-000Z-demo.md''
     = ''chats/2024-05-06T12-00-00-000Z-demo.md''"
  by (simp add: posix_normalize_def)

lemma dirname_demo:
  "posix_dirname ''chats/2024-05-06T12-00-00-000Z-demo.md'' = ''chats''"
  by (simp add: posix_dirname_def)

lemma path_chat:
  "posix_join ''./chats'' ''2024-05-06T12-00-00-000Z-chat.json''
     = ''chats/2024-05-06T12-00-00-000Z-chat.json''"
  by (simp add: posix_join_def posix_normalize_def)

lemma normal_chat:
  "posix_normalize ''chats/2024-05-06T12-00-00-000Z-chat.json''
     = ''chats/2024-05-06T12-00-00-000Z-chat.json''"
  by (simp add: posix_normalize_def)

lemma dirname_chat:
  "posix_dirname ''chats/2024-05-06T12-00-00-000Z-chat.json'' = ''chats''"
  by (simp add: posix_dirname_def)

lemma name_chat:
  "saveFormat cfg \<noteq> Some ''markdown''
     \<Longrightarrow> filename noon cfg None = ''2024-05-06T12-00-00-000Z-chat.json''"
  by (simp add: noon_def filename_def fileExtension_def formatToUse_def timestamp_def)

lemma ready_empty_disk:
  "(if \<not> existsSync disk_ops empty_disk ''./chats''
    then mkdirSync disk_ops empty_disk ''./chats'' else (None, empty_disk))
     = (None, \<lparr> dirs = [''chats'', ''.''], files = [] \<rparr>)"
  by (simp add: disk_ops_def empty_disk_def normalize_chats read_file_def)

lemma disk_ops_stores:
  "writeFileSync disk_ops d p t = (None, d') \<Longrightarrow> read_file d' p = Some t"
  by (auto simp add: disk_ops_def read_file_def split: if_splits)

lemma ready_full_disk:
  "(if \<not> existsSync full_disk_ops empty_disk ''./chats''
    then mkdirSync full_disk_ops empty_disk ''./chats'' else (None, empty_disk))
     = (None, \<lparr> dirs = [''chats'', ''.''], files = [] \<rparr>)"
  by (simp add: full_disk_ops_def disk_ops_def empty_disk_def normalize_chats read_file_def)

lemma name_running: "filename noon (live running) None = ''2024-05-06T12-00-00-000Z-chat.json''"
  by (rule name_chat) (simp add: live_running defaultConfig_def key_env_def)

lemma disk_join: "path_join disk_ops a b = posix_join a b"
  by (simp add: disk_ops_def)

lemma disk_write_ok:
  "posix_dirname (posix_normalize p) \<in> set (dirs d)
     \<Longrightarrow> writeFileSync disk_ops d p t = (None, d\<lparr> files := (posix_normalize p, t) # files d \<rparr>)"
  by (simp add: disk_ops_def)

lemma saveChat_thrown:
  assumes "(if \<not> existsSync ops fs (save_dir env (live w))
            then mkdirSync ops fs (save_dir env (live w)) else (None, fs)) = (Some error, fsm)"
  shows "saveChat ops env clk w C title fs
           = (Inl (''Failed to save chat: '' @ error_message error), fsm)"
  using assms
  by (simp add: saveChat_def deref_this_config Let_def split: prod.splits)

lemma saveChat_Inr:
  assumes "saveChat ops env clk w C title fs = (Inr P, fs')"
  shows "\<exists>fsm. writeFileSync ops fsm
                 (path_join ops (save_dir env (live w)) (filename clk (live w) title))
                 (file_content clk (live w) C) = (None, fs')
               \<and> P = path_join ops (save_dir env (live w)) (filename clk (live w) title)"
proof -
  obtain thrown1 fsm where a:
    "(if \<not> existsSync ops fs (save_dir env (live w))
      then mkdirSync ops fs (save_dir env (live w)) else (None, fs)) = (thrown1, fsm)"
    by (rule prod.exhaust)
  show ?thesis
  proof (cases thrown1)
    case (Some error)
    then show ?thesis
      using saveChat_thrown [of ops fs env w error fsm clk C title] a assms by simp
  next
    case None
    obtain thrown2 fsn where b:
      "writeFileSync ops fsm
         (path_join ops (save_dir env (live w)) (filename clk (live w) title))
         (file_content clk (live w) C) = (thrown2, fsn)"
      by (rule prod.exhaust)
    have c: "saveChat ops env clk w C title fs =
        (case thrown2 of
           Some error \<Rightarrow> (Inl (''Failed to save chat: '' @ error_message error), fsn)
         | None \<Rightarrow>
             (Inr (path_join ops (save_dir env (live w)) (filename clk (live w) title)), fsn))"
      using saveChat_ready [of ops fs env w fsm clk C title] a None b by simp
    show ?thesis
    proof (cases thrown2)
      case (Some error)
      then show ?thesis using c assms by simp
    next
      case None
      then have "P = path_join ops (save_dir env (live w)) (filename clk (live w) title)"
        and "fsn = fs'"
        using c assms by simp_all
      then show ?thesis using b None by blast
    qed
  qed
qed

section \<open>The JSON text read back\<close>

text \<open>
  Each reader consumes at least one character of its input, so the tests
  \<open>length r < length s\<close> in \<open>parse_elements\<close> and \<open>parse_members\<close> are always passed:
  both functions satisfy their equations without the tests.
\<close>

lemma skip_ws_le: "length (skip_ws s) \<le> length s"
  by (simp add: skip_ws_def length_dropWhile_le)

lemma parse_chars_consumes: "parse_chars s = Some (t, r) \<Longrightarrow> length r < length s"
proof (induction s arbitrary: t rule: parse_chars.induct)
  case 1
  then show ?case by simp
next
  case (2 c cs)
  then show ?case
    by (fastforce split: if_splits list.splits option.splits)
qed

lemma parse_consumes:
  "(\<forall>v r. parse_value s = Some (v, r) \<longrightarrow> length r < length s)"
  "(\<forall>vs r. parse_elements s1 = Some (vs, r) \<longrightarrow> length r < length s1)"
  "(\<forall>kvs r. parse_members s2 = Some (kvs, r) \<longrightarrow> length r < length s2)"
proof (induction s and s1 and s2 rule: parse_value_parse_elements_parse_members.induct)
  case (1 s)
  show ?case
  proof (intro allI impI)
    fix v r
    assume a: "parse_value s = Some (v, r)"
    show "length r < length s"
    proof (cases "skip_ws s")
      case Nil
      with a show ?thesis by (simp add: parse_value.simps [of s])
    next
      case (Cons c cs)
      have l: "length cs < length s" using Cons by (rule skip_ws_length)
      have l2: "length (skip_ws cs) \<le> length cs" by (rule skip_ws_le)
      consider (str) "c = dq"
        | (arr) "c \<noteq> dq" "c = CHR ''[''"
        | (obj) "c \<noteq> dq" "c \<noteq> CHR ''[''" "c = CHR ''{''"
        | (lit) "c \<noteq> dq" "c \<noteq> CHR ''[''" "c \<noteq> CHR ''{''"
        by blast
      then show ?thesis
      proof cases
        case str
        with a Cons obtain t where "parse_chars cs = Some (t, r)"
          by (auto simp add: parse_value.simps [of s])
        then have "length r < length cs" by (rule parse_chars_consumes)
        with l show ?thesis by simp
      next
        case arr
        show ?thesis
        proof (cases "take 1 (skip_ws cs) = '']''")
          case True
          with a Cons arr have "r = drop 1 (skip_ws cs)"
            by (simp add: parse_value.simps [of s])
          with l l2 show ?thesis by simp
        next
          case False
          with a Cons arr obtain vs where "parse_elements cs = Some (vs, r)"
            by (auto simp add: parse_value.simps [of s])
          with 1(1) [OF Cons arr False] have "length r < length cs" by blast
          with l show ?thesis by simp
        qed
      next
        case obj
        show ?thesis
        proof (cases "take 1 (skip_ws cs) = ''}''")
          case True
          with a Cons obj have "r = drop 1 (skip_ws cs)"
            by (simp add: parse_value.simps [of s])
          with l l2 show ?thesis by simp
        next
          case False
          with a Cons obj obtain kvs where "parse_members cs = Some (kvs, r)"
            by (auto simp add: parse_value.simps [of s])
          with 1(2) [OF Cons obj False] have "length r < length cs" by blast
          with l show ?thesis by simp
        qed
      next
        case lit
        with a Cons have "r = drop 4 (c # cs) \<or> r = drop 5 (c # cs)"
          by (auto simp add: parse_value.simps [of s] split: if_splits)
        with l show ?thesis by auto
      qed
    qed
  qed
next
  case (2 s)
  show ?case
  proof (intro allI impI)
    fix vs r
    assume a: "parse_elements s = Some (vs, r)"
    then obtain v r1 where v: "parse_value s = Some (v, r1)"
      by (auto simp add: parse_elements.simps [of s] split: option.splits)
    have l1: "length r1 < length s" using 2(1) v by blast
    from a v obtain c r' where c: "skip_ws r1 = c # r'"
      by (auto simp add: parse_elements.simps [of s] split: list.splits)
    have l2: "length r' < length r1" using c by (rule skip_ws_length)
    show "length r < length s"
    proof (cases "c = CHR '']''")
      case True
      with a v c have "r = r'" by (simp add: parse_elements.simps [of s])
      with l1 l2 show ?thesis by simp
    next
      case False
      with a v c have g: "c = CHR '',''" "length r' < length s"
        by (auto simp add: parse_elements.simps [of s] split: if_splits)
      with a v c False obtain ws where "parse_elements r' = Some (ws, r)"
        by (auto simp add: parse_elements.simps [of s])
      with 2(2) [OF v refl c False] g have "length r < length r'" by blast
      with g show ?thesis by simp
    qed
  qed
next
  case (3 s)
  show ?case
  proof (intro allI impI)
    fix kvs r
    assume a: "parse_members s = Some (kvs, r)"
    then obtain c cs where s: "skip_ws s = c # cs" and q: "c = dq"
      by (auto simp add: parse_members.simps [of s] split: list.splits if_splits)
    from a s q obtain k r1 where k: "parse_chars cs = Some (k, r1)"
      by (auto simp add: parse_members.simps [of s] split: option.splits)
    from a s q k obtain c2 r2 where c2: "skip_ws r1 = c2 # r2"
      by (auto simp add: parse_members.simps [of s] split: list.splits)
    from a s q k c2 have g2: "c2 = CHR '':''" "length r2 < length s"
      by (auto simp add: parse_members.simps [of s] split: if_splits)
    from a s q k c2 g2 obtain v r3 where v: "parse_value r2 = Some (v, r3)"
      by (auto simp add: parse_members.simps [of s] split: option.splits)
    have g2': "c2 = CHR '':'' \<and> length r2 < length s" using g2 by simp
    have l3: "length r3 < length r2" using 3(1) [OF s q k refl c2 g2'] v by blast
    from a s q k c2 g2 v obtain c3 r4 where c3: "skip_ws r3 = c3 # r4"
      by (auto simp add: parse_members.simps [of s] split: list.splits)
    have l4: "length r4 < length r3" using c3 by (rule skip_ws_length)
    show "length r < length s"
    proof (cases "c3 = CHR ''}''")
      case True
      with a s q k c2 g2 v c3 have "r = r4" by (simp add: parse_members.simps [of s])
      with l3 l4 g2 show ?thesis by simp
    next
      case False
      with a s q k c2 g2 v c3 have g4: "c3 = CHR '',''" "length r4 < length s"
        by (auto simp add: parse_members.simps [of s] split: if_splits)
      with a s q k c2 g2 v c3 False obtain ws where "parse_members r4 = Some (ws, r)"
        by (auto simp add: parse_members.simps [of s])
      moreover have g4': "c3 = CHR '','' \<and> length r4 < length s" using g4 by simp
      ultimately have "length r < length r4"
        using 3(2) [OF s q k refl c2 g2' v refl c3 False g4'] by blast
      with g4 show ?thesis by simp
    qed
  qed
qed

lemma parse_elements_unguarded:
  "parse_elements s =
     (case parse_value s of
        None \<Rightarrow> None
      | Some (v, r) \<Rightarrow>
          (case skip_ws r of
             [] \<Rightarrow> None
           | c # r' \<Rightarrow>
               if c = CHR '']'' then Some ([v], r')
               else if c = CHR '','' then map_option (\<lambda>(vs, t). (v # vs, t)) (parse_elements r')
               else None))"
proof (cases "parse_value s")
  case None
  then show ?thesis by (simp add: parse_elements.simps [of s])
next
  case (Some p)
  obtain v r where p: "p = (v, r)" by (cases p)
  have l1: "length r < length s" using parse_consumes(1) [of s] Some p by blast
  show ?thesis
  proof (cases "skip_ws r")
    case Nil
    with Some p show ?thesis by (simp add: parse_elements.simps [of s])
  next
    case (Cons c r')
    have "length r' < length r" using Cons by (rule skip_ws_length)
    with l1 have "length r' < length s" by simp
    with Some p Cons show ?thesis by (simp add: parse_elements.simps [of s])
  qed
qed

lemma parse_members_unguarded:
  "parse_members s =
     (case skip_ws s of
        [] \<Rightarrow> None
      | c # cs \<Rightarrow>
          if c = dq then
            (case parse_chars cs of
               None \<Rightarrow> None
             | Some (k, r) \<Rightarrow>
                 (case skip_ws r of
                    [] \<Rightarrow> None
                  | c2 # r2 \<Rightarrow>
                      if c2 = CHR '':'' then
                        (case parse_value r2 of
                           None \<Rightarrow> None
                         | Some (v, r3) \<Rightarrow>
                             (case skip_ws r3 of
                                [] \<Rightarrow> None
                              | c3 # r4 \<Rightarrow>
                                  if c3 = CHR ''}'' then Some ([(k, v)], r4)
                                  else if c3 = CHR '',''
                                  then map_option (\<lambda>(kvs, t). ((k, v) # kvs, t)) (parse_members r4)
                                  else None))
                      else None))
          else None)"
proof (cases "skip_ws s")
  case Nil
  then show ?thesis by (simp add: parse_members.simps [of s])
next
  case (Cons c cs)
  have l0: "length cs < length s" using Cons by (rule skip_ws_length)
  show ?thesis
  proof (cases "parse_chars cs")
    case None
    with Cons show ?thesis by (simp add: parse_members.simps [of s])
  next
    case (Some p)
    obtain k r where p: "p = (k, r)" by (cases p)
    have l1: "length r < length cs" using Some p parse_chars_consumes by blast
    show ?thesis
    proof (cases "skip_ws r")
      case Nil
      with Cons Some p show ?thesis by (simp add: parse_members.simps [of s])
    next
      case c2: (Cons c2 r2)
      have l2: "length r2 < length r" using c2 by (rule skip_ws_length)
      have g2: "length r2 < length s" using l0 l1 l2 by simp
      show ?thesis
      proof (cases "parse_value r2")
        case None
        with Cons Some p c2 show ?thesis by (simp add: parse_members.simps [of s])
      next
        case v: (Some q)
        obtain v r3 where q: "q = (v, r3)" by (cases q)
        have l3: "length r3 < length r2" using parse_consumes(1) [of r2] v q by blast
        show ?thesis
        proof (cases "skip_ws r3")
          case Nil
          with Cons Some p c2 v q show ?thesis by (simp add: parse_members.simps [of s])
        next
          case c3: (Cons c3 r4)
          have "length r4 < length r3" using c3 by (rule skip_ws_length)
          with l3 g2 have "length r4 < length s" by simp
          with Cons Some p c2 v q c3 g2 show ?thesis by (simp add: parse_members.simps [of s])
        qed
      qed
    qed
  qed
qed

text \<open>What \<open>stringify\<close> writes is read back as the value it was written from.\<close>

lemma hex_char_is_hex: "k < 16 \<Longrightarrow> is_hex (hex_char k)"
  by (auto simp add: hex_char_def is_hex_def is_digit_def)

lemma hex_val_hex_char: "k < 16 \<Longrightarrow> hex_val (hex_char k) = k"
  by (auto simp add: hex_char_def hex_val_def is_digit_def)

lemma is_hex_zero: "is_hex CHR ''0''"
  by (simp add: is_hex_def is_digit_def)

lemma hex_val_zero: "hex_val CHR ''0'' = 0"
  by (simp add: hex_val_def is_digit_def)

lemma hex4_escape:
  assumes "n < 32"
  shows "hex4 CHR ''0'' CHR ''0'' (hex_char (n div 16)) (hex_char (n mod 16)) = Some n"
proof -
  have a: "n div 16 < 16" using assms by simp
  have b: "n mod 16 < 16" by simp
  show ?thesis
    by (simp add: hex4_def is_hex_zero hex_val_zero hex_char_is_hex [OF a] hex_char_is_hex [OF b]
        hex_val_hex_char [OF a] hex_val_hex_char [OF b])
qed

lemma parse_chars_quote_char:
  "parse_chars (quote_char c @ rest) = map_option (\<lambda>(s, t). (c # s, t)) (parse_chars rest)"
proof -
  consider (short) "c = CHR 0x08 \<or> c = CHR 0x09 \<or> c = CHR 0x0A \<or> c = CHR 0x0C \<or> c = CHR 0x0D
                     \<or> c = dq \<or> c = bs"
    | (control) "\<not> (c = CHR 0x08 \<or> c = CHR 0x09 \<or> c = CHR 0x0A \<or> c = CHR 0x0C \<or> c = CHR 0x0D
                     \<or> c = dq \<or> c = bs)" "(of_char c :: nat) < 32"
    | (plain) "\<not> (c = CHR 0x08 \<or> c = CHR 0x09 \<or> c = CHR 0x0A \<or> c = CHR 0x0C \<or> c = CHR 0x0D
                     \<or> c = dq \<or> c = bs)" "\<not> (of_char c :: nat) < 32"
    by blast
  then show ?thesis
  proof cases
    case short
    then show ?thesis
      by (auto simp add: quote_char_def unescape_def)
  next
    case control
    have "(of_char c :: nat) < 256" using control(2) by simp
    with control show ?thesis
      by (simp add: quote_char_def hex4_escape)
  next
    case plain
    then show ?thesis
      by (simp add: quote_char_def)
  qed
qed

lemma parse_chars_quoted:
  "parse_chars (concat (map quote_char s) @ dq # rest) = Some (s, rest)"
  by (induction s) (simp_all add: parse_chars_quote_char)

lemma skip_ws_indent: "skip_ws (indent l @ s) = skip_ws s"
  by (simp add: skip_ws_def indent_def is_json_ws_def dropWhile_append)

lemma skip_ws_nl: "skip_ws (nl # s) = skip_ws s"
  by (simp add: skip_ws_def is_json_ws_def)

lemma skip_ws_space: "skip_ws (CHR '' '' # s) = skip_ws s"
  by (simp add: skip_ws_def is_json_ws_def)

lemma skip_ws_token: "\<not> is_json_ws c \<Longrightarrow> skip_ws (c # s) = c # s"
  by (simp add: skip_ws_def)

lemma parse_value_skip: "skip_ws s = skip_ws t \<Longrightarrow> parse_value s = parse_value t"
  by (simp add: parse_value.simps [of s] parse_value.simps [of t])

lemma join_Cons: "xs \<noteq> [] \<Longrightarrow> join sep (x # xs) = x @ sep @ join sep xs"
  by (cases xs) simp_all

lemma stringify_start:
  "\<exists>c cs. stringify l v = c # cs \<and> \<not> is_json_ws c \<and> c \<noteq> CHR '']'' \<and> c \<noteq> CHR ''}''"
  by (cases v) (simp_all add: quote_def is_json_ws_def)

lemma skip_ws_stringify: "skip_ws (stringify l v @ r) = stringify l v @ r"
proof -
  obtain c cs where "stringify l v = c # cs" and "\<not> is_json_ws c"
    using stringify_start by blast
  then show ?thesis by (simp add: skip_ws_token)
qed

lemma parse_elements_join:
  assumes "xs \<noteq> []"
    and "\<And>v r. v \<in> set xs \<Longrightarrow> parse_value (stringify l1 v @ r) = Some (v, r)"
  shows "parse_elements (nl # indent l1 @ join (CHR '','' # nl # indent l1) (map (stringify l1) xs)
                          @ nl # indent l0 @ CHR '']'' # rest) = Some (xs, rest)"
  using assms
proof (induction xs rule: list_nonempty_induct)
  case (single x)
  have v: "parse_value (nl # indent l1 @ stringify l1 x @ nl # indent l0 @ CHR '']'' # rest)
             = Some (x, nl # indent l0 @ CHR '']'' # rest)"
    using single [of x "nl # indent l0 @ CHR '']'' # rest"]
      parse_value_skip [of "nl # indent l1 @ stringify l1 x @ nl # indent l0 @ CHR '']'' # rest"
                           "stringify l1 x @ nl # indent l0 @ CHR '']'' # rest"]
    by (simp add: skip_ws_nl skip_ws_indent)
  have w: "skip_ws (nl # indent l0 @ CHR '']'' # rest) = CHR '']'' # rest"
    by (simp add: skip_ws_nl skip_ws_indent skip_ws_token is_json_ws_def)
  show ?case
    by (subst parse_elements.simps) (simp add: v w)
next
  case (cons x xs)
  let ?tail = "nl # indent l1 @ join (CHR '','' # nl # indent l1) (map (stringify l1) xs)
                 @ nl # indent l0 @ CHR '']'' # rest"
  have ih: "parse_elements ?tail = Some (xs, rest)"
    using cons by simp
  have v: "parse_value (nl # indent l1 @ stringify l1 x @ CHR '','' # ?tail)
             = Some (x, CHR '','' # ?tail)"
    using cons.prems [of x "CHR '','' # ?tail"]
      parse_value_skip [of "nl # indent l1 @ stringify l1 x @ CHR '','' # ?tail"
                           "stringify l1 x @ CHR '','' # ?tail"]
    by (simp add: skip_ws_nl skip_ws_indent)
  have w: "skip_ws (CHR '','' # ?tail) = CHR '','' # ?tail"
    by (simp add: skip_ws_token is_json_ws_def)
  have e: "nl # indent l1 @ join (CHR '','' # nl # indent l1) (map (stringify l1) (x # xs))
                          @ nl # indent l0 @ CHR '']'' # rest
           = nl # indent l1 @ stringify l1 x @ CHR '','' # ?tail"
    using cons.hyps by (simp add: join_Cons)
  show ?case
    unfolding e
    by (subst parse_elements.simps) (simp add: v w ih)
qed

lemma parse_members_step:
  assumes "parse_value (stringify l1 v @ t) = Some (v, t)"
  shows "parse_members (nl # indent l1 @ quote k @ CHR '':'' # CHR '' '' # stringify l1 v @ t)
     = (case skip_ws t of
          [] \<Rightarrow> None
        | c3 # r4 \<Rightarrow>
            if c3 = CHR ''}'' then Some ([(k, v)], r4)
            else if c3 = CHR '','' \<and> length r4
                      < length (nl # indent l1 @ quote k @ CHR '':'' # CHR '' '' # stringify l1 v @ t)
            then map_option (\<lambda>(kvs, u). ((k, v) # kvs, u)) (parse_members r4)
            else None)"
proof -
  let ?s = "nl # indent l1 @ quote k @ CHR '':'' # CHR '' '' # stringify l1 v @ t"
  have a: "skip_ws ?s = dq # concat (map quote_char k) @ dq # CHR '':'' # CHR '' '' # stringify l1 v @ t"
    by (simp add: skip_ws_nl skip_ws_indent skip_ws_token quote_def is_json_ws_def)
  have b: "skip_ws (CHR '':'' # CHR '' '' # stringify l1 v @ t) = CHR '':'' # CHR '' '' # stringify l1 v @ t"
    by (simp add: skip_ws_token is_json_ws_def)
  have c: "parse_value (CHR '' '' # stringify l1 v @ t) = Some (v, t)"
    using assms parse_value_skip [of "CHR '' '' # stringify l1 v @ t" "stringify l1 v @ t"]
    by (simp add: skip_ws_space)
  show ?thesis
    by (subst parse_members.simps) (simp add: a b c parse_chars_quoted)
qed

lemma parse_members_join:
  assumes "kvs \<noteq> []"
    and "\<And>k v r. (k, v) \<in> set kvs \<Longrightarrow> parse_value (stringify l1 v @ r) = Some (v, r)"
  shows "parse_members (nl # indent l1
           @ join (CHR '','' # nl # indent l1)
               (map (\<lambda>(k, v). quote k @ CHR '':'' # CHR '' '' # stringify l1 v) kvs)
           @ nl # indent l0 @ CHR ''}'' # rest) = Some (kvs, rest)"
  using assms
proof (induction kvs rule: list_nonempty_induct)
  case (single kv)
  obtain k v where kv: "kv = (k, v)" by (cases kv)
  have v: "parse_value (stringify l1 v @ nl # indent l0 @ CHR ''}'' # rest)
             = Some (v, nl # indent l0 @ CHR ''}'' # rest)"
    using single [of k v] kv by simp
  have w: "skip_ws (nl # indent l0 @ CHR ''}'' # rest) = CHR ''}'' # rest"
    by (simp add: skip_ws_nl skip_ws_indent skip_ws_token is_json_ws_def)
  show ?case
    using parse_members_step [OF v, of k] by (simp add: kv w)
next
  case (cons kv kvs)
  obtain k v where kv: "kv = (k, v)" by (cases kv)
  let ?tail = "nl # indent l1
           @ join (CHR '','' # nl # indent l1)
               (map (\<lambda>(k, v). quote k @ CHR '':'' # CHR '' '' # stringify l1 v) kvs)
           @ nl # indent l0 @ CHR ''}'' # rest"
  have ih: "parse_members ?tail = Some (kvs, rest)"
  proof (rule cons.IH)
    fix k v r
    assume "(k, v) \<in> set kvs"
    then show "parse_value (stringify l1 v @ r) = Some (v, r)"
      using cons.prems [of k v r] by simp
  qed
  have v: "parse_value (stringify l1 v @ CHR '','' # ?tail) = Some (v, CHR '','' # ?tail)"
    using cons.prems [of k v] kv by simp
  have w: "skip_ws (CHR '','' # ?tail) = CHR '','' # ?tail"
    by (simp add: skip_ws_token is_json_ws_def)
  show ?case
    using parse_members_step [OF v, of k] cons.hyps
    by (simp add: kv w ih join_Cons)
qed

lemma join_start:
  assumes "xs \<noteq> []" and "\<And>x. x \<in> set xs \<Longrightarrow> \<exists>c t. f x = c # t \<and> \<not> is_json_ws c \<and> c \<noteq> d"
  shows "take 1 (skip_ws (nl # indent l @ join sep (map f xs) @ r)) \<noteq> [d]"
proof -
  obtain x ys where xs: "xs = x # ys" using assms(1) by (cases xs) auto
  obtain c t where c: "f x = c # t" "\<not> is_json_ws c" "c \<noteq> d"
    using assms(2) [of x] xs by auto
  have "\<exists>u. join sep (map f xs) = c # u"
    by (cases ys) (simp_all add: xs c)
  then obtain u where "join sep (map f xs) = c # u" by blast
  then show ?thesis
    using c by (simp add: skip_ws_nl skip_ws_indent skip_ws_token)
qed

lemma parse_value_stringify: "parse_value (stringify l v @ rest) = Some (v, rest)"
proof (induction v arbitrary: l rest)
  case JNull
  show ?case
    by (subst parse_value.simps) (simp add: skip_ws_token is_json_ws_def)
next
  case (JBool b)
  show ?case
    by (subst parse_value.simps) (simp add: skip_ws_token is_json_ws_def)
next
  case (JStr s)
  show ?case
    by (subst parse_value.simps) (simp add: quote_def skip_ws_token is_json_ws_def parse_chars_quoted)
next
  case (JArr xs)
  show ?case
  proof (cases "xs = []")
    case True
    then show ?thesis
      by (subst parse_value.simps) (simp add: skip_ws_token is_json_ws_def)
  next
    case False
    have n: "take 1 (skip_ws (nl # indent (Suc l)
               @ join (CHR '','' # nl # indent (Suc l)) (map (stringify (Suc l)) xs)
               @ nl # indent l @ CHR '']'' # rest)) \<noteq> [CHR '']'']"
      using False stringify_start by (intro join_start) blast+
    have e: "parse_elements (nl # indent (Suc l)
               @ join (CHR '','' # nl # indent (Suc l)) (map (stringify (Suc l)) xs)
               @ nl # indent l @ CHR '']'' # rest) = Some (xs, rest)"
      using False JArr by (intro parse_elements_join) simp_all
    show ?thesis
      using False n
      by (subst parse_value.simps) (simp add: skip_ws_token is_json_ws_def e)
  qed
next
  case (JObj kvs)
  show ?case
  proof (cases "kvs = []")
    case True
    then show ?thesis
      by (subst parse_value.simps) (simp add: skip_ws_token is_json_ws_def)
  next
    case False
    have n: "take 1 (skip_ws (nl # indent (Suc l)
               @ join (CHR '','' # nl # indent (Suc l))
                   (map (\<lambda>(k, v). quote k @ CHR '':'' # CHR '' '' # stringify (Suc l) v) kvs)
               @ nl # indent l @ CHR ''}'' # rest)) \<noteq> [CHR ''}'']"
      using False by (intro join_start) (auto simp add: quote_def is_json_ws_def)
    have e: "parse_members (nl # indent (Suc l)
               @ join (CHR '','' # nl # indent (Suc l))
                   (map (\<lambda>(k, v). quote k @ CHR '':'' # CHR '' '' # stringify (Suc l) v) kvs)
               @ nl # indent l @ CHR ''}'' # rest) = Some (kvs, rest)"
      using False JObj by (intro parse_members_join) auto
    show ?thesis
      using False n
      by (subst parse_value.simps) (simp add: skip_ws_token is_json_ws_def e)
  qed
qed

lemma JSON_parse_stringify: "JSON_parse (stringify 0 v) = Some v"
  using parse_value_stringify [of 0 v "[]"] by (simp add: JSON_parse_def skip_ws_def)

lemma message_of_json_message_json: "message_of_json (message_json m) = Some m"
  by (cases "role m")
     (simp_all add: message_of_json_def message_json_def field_def role_of_name_def role_name_def)

lemma messages_of_json_map: "messages_of_json (JArr (map message_json C)) = Some C"
  by (induction C)
     (simp_all add: messages_of_json_def message_of_json_message_json list_all_iff map_idI)

section \<open>Configuration updates\<close>

subsection \<open>C1: the model after a provider switch\<close>

text \<open>
  C1 says that \<^verbatim>\<open>updateConfig\<close> replaces a model that the new provider does not list by
  the first model of the new provider's list, and that the switch never throws. After the
  start of the program, with both keys in the environment, the model is
  \<^verbatim>\<open>claude-3-opus-20240229\<close>, which the list of \<^verbatim>\<open>openai\<close> does not hold; the call
  \<^verbatim>\<open>updateConfig({provider: 'openai'})\<close> returns, the provider is \<^verbatim>\<open>openai\<close> and the model
  is still \<^verbatim>\<open>claude-3-opus-20240229\<close>: not the first entry \<^verbatim>\<open>gpt-4-turbo\<close>, and not in the
  list. And on a service made for \<^verbatim>\<open>openai\<close>, with the key of OpenAI alone in the
  environment, \<^verbatim>\<open>updateConfig({provider: 'anthropic'})\<close> throws
  \<^verbatim>\<open>Anthropic API key not found\<close>.
\<close>

theorem updateConfig_provider_switch_counterexample:
  "boot needs_key key_env = Inr running
   \<and> model (live running) \<notin> set (availableModels OpenAI)
   \<and> fst (updateConfig needs_key key_env (no_change\<lparr> p_provider := Some OpenAI \<rparr>) running) = None
   \<and> provider (live (snd (updateConfig needs_key key_env (no_change\<lparr> p_provider := Some OpenAI \<rparr>) running)))
       = OpenAI
   \<and> model (live (snd (updateConfig needs_key key_env (no_change\<lparr> p_provider := Some OpenAI \<rparr>) running)))
       = ''claude-3-opus-20240229''
   \<and> model (live (snd (updateConfig needs_key key_env (no_change\<lparr> p_provider := Some OpenAI \<rparr>) running)))
       \<noteq> hd (availableModels OpenAI)
   \<and> model (live (snd (updateConfig needs_key key_env (no_change\<lparr> p_provider := Some OpenAI \<rparr>) running)))
       \<notin> set (availableModels OpenAI)
   \<and> boot_with needs_key openai_env openai_config = Inr (started openai_env openai_config)
   \<and> fst (updateConfig needs_key openai_env (no_change\<lparr> p_provider := Some Anthropic \<rparr>)
            (started openai_env openai_config))
       = Some (ErrorObject ''Anthropic API key not found'')"
proof -
  have a: "fst (updateConfig needs_key key_env (no_change\<lparr> p_provider := Some OpenAI \<rparr>) running) = None"
    by (simp add: fst_updateConfig live_running mergeConfig_def json_copy_def no_change_def
        defaultConfig_def makeModel_def needs_key_def key_env_def or_else_def)
  have b: "fst (updateConfig needs_key openai_env (no_change\<lparr> p_provider := Some Anthropic \<rparr>)
            (started openai_env openai_config))
       = Some (ErrorObject ''Anthropic API key not found'')"
    by (simp add: fst_updateConfig live_started mergeConfig_def json_copy_def no_change_def
        openai_config_def makeModel_def needs_key_def openai_env_def or_else_def)
  show ?thesis
    using a b boot_running boot_openai
    by (simp add: live_updateConfig live_running mergeConfig_def json_copy_def no_change_def
        defaultConfig_def)
qed

text \<open>
  C1 as amended. \<^verbatim>\<open>updateConfig\<close> does not consult the registry: the model after the call
  is the model passed in, or the model before the call when none is passed, and the same
  holds of the provider, whether the call returns or throws. The call throws what the
  constructor of the adapter throws on the configuration that it made live, and returns
  when the constructor returns. The registry rule lives in the settings form: its
  provider effect leaves the provider alone and replaces a model outside the selected
  provider's list by the first entry of that list, and a configuration saved from the
  form after the effect has a model of its provider's list.
\<close>

theorem provider_switch_model:
  "model (live (snd (updateConfig ctor env newConfig w)))
     = (case p_model newConfig of Some m \<Rightarrow> m | None \<Rightarrow> model (live w))
   \<and> provider (live (snd (updateConfig ctor env newConfig w)))
     = (case p_provider newConfig of Some p \<Rightarrow> p | None \<Rightarrow> provider (live w))
   \<and> fst (updateConfig ctor env newConfig w)
     = ctor (makeModel env (live (snd (updateConfig ctor env newConfig w))))
   \<and> f_provider (providerEffect f) = f_provider f
   \<and> f_model (providerEffect f)
     = (if f_model f \<in> set (availableModels (f_provider f)) then f_model f
        else hd (availableModels (f_provider f)))
   \<and> model (live (snd (saveSettings ctor env (providerEffect f) w)))
     \<in> set (availableModels (provider (live (snd (saveSettings ctor env (providerEffect f) w)))))"
proof -
  have a: "model (live (snd (updateConfig ctor env newConfig w)))
     = (case p_model newConfig of Some m \<Rightarrow> m | None \<Rightarrow> model (live w))"
    by (simp add: live_updateConfig mergeConfig_def json_copy_def)
  have b: "provider (live (snd (updateConfig ctor env newConfig w)))
     = (case p_provider newConfig of Some p \<Rightarrow> p | None \<Rightarrow> provider (live w))"
    by (simp add: live_updateConfig mergeConfig_def json_copy_def)
  have t: "fst (updateConfig ctor env newConfig w)
     = ctor (makeModel env (live (snd (updateConfig ctor env newConfig w))))"
    by (simp add: live_updateConfig fst_updateConfig)
  have c: "f_provider (providerEffect f) = f_provider f"
    by (simp add: providerEffect_def)
  have d: "f_model (providerEffect f)
     = (if f_model f \<in> set (availableModels (f_provider f)) then f_model f
        else hd (availableModels (f_provider f)))"
    by (simp add: providerEffect_def)
  have e: "model (live (snd (saveSettings ctor env (providerEffect f) w)))
     \<in> set (availableModels (provider (live (snd (saveSettings ctor env (providerEffect f) w)))))"
    using providerEffect_member [of f]
    by (simp add: live_saveSettings mergeConfig_def json_copy_def json_partial_def
        settings_newConfig_def)
  from a b t c d e show ?thesis by blast
qed

subsection \<open>C3: when the adapter is rebuilt\<close>

text \<open>
  C3 says that an update of \<^verbatim>\<open>systemPrompt\<close> alone does not rebuild the adapter. After the
  start of the program, with both keys in the environment,
  \<^verbatim>\<open>updateConfig({systemPrompt: 'Be brief.'})\<close> returns and leaves provider, model,
  credential, temperature and maxTokens as they were, and \<^verbatim>\<open>this.model\<close> is a new object
  all the same.
\<close>

theorem updateConfig_rebuild_counterexample:
  "boot needs_key key_env = Inr running
   \<and> fst (updateConfig needs_key key_env (no_change\<lparr> p_systemPrompt := Some ''Be brief.'' \<rparr>) running) = None
   \<and> provider (live (snd (updateConfig needs_key key_env (no_change\<lparr> p_systemPrompt := Some ''Be brief.'' \<rparr>) running)))
     = provider (live running)
   \<and> model (live (snd (updateConfig needs_key key_env (no_change\<lparr> p_systemPrompt := Some ''Be brief.'' \<rparr>) running)))
     = model (live running)
   \<and> apiKey (live (snd (updateConfig needs_key key_env (no_change\<lparr> p_systemPrompt := Some ''Be brief.'' \<rparr>) running)))
     = apiKey (live running)
   \<and> temperature (live (snd (updateConfig needs_key key_env (no_change\<lparr> p_systemPrompt := Some ''Be brief.'' \<rparr>) running)))
     = temperature (live running)
   \<and> maxTokens (live (snd (updateConfig needs_key key_env (no_change\<lparr> p_systemPrompt := Some ''Be brief.'' \<rparr>) running)))
     = maxTokens (live running)
   \<and> this_model running = 1
   \<and> this_model (snd (updateConfig needs_key key_env (no_change\<lparr> p_systemPrompt := Some ''Be brief.'' \<rparr>) running)) = 3"
proof -
  have a: "fst (updateConfig needs_key key_env (no_change\<lparr> p_systemPrompt := Some ''Be brief.'' \<rparr>) running) = None"
    by (simp add: fst_updateConfig live_running mergeConfig_def json_copy_def no_change_def
        defaultConfig_def makeModel_def needs_key_def key_env_def or_else_def)
  have b: "this_model running = 1"
    by (simp add: running_def started_def)
  have c: "this_model (snd (updateConfig needs_key key_env (no_change\<lparr> p_systemPrompt := Some ''Be brief.'' \<rparr>) running)) = 3"
    using a
    by (simp add: updateConfig_def new_config_def new_model_def Let_def running_def started_def
        split: option.splits)
  show ?thesis
    using a b c boot_running
    by (simp add: live_updateConfig live_running mergeConfig_def json_copy_def no_change_def
        defaultConfig_def)
qed

text \<open>
  C3 as amended. Every call of \<^verbatim>\<open>updateConfig\<close>, whatever it changes, makes a copy of the
  merged configuration the live one and then calls the constructor of the adapter on it.
  When the constructor returns, the call returns and \<^verbatim>\<open>this.model\<close> is an adapter object
  that did not exist before the call, built from the configuration that is live after
  the call. When the constructor throws, the call throws the same error, \<^verbatim>\<open>this.model\<close>
  is the adapter it was before and no adapter was added, while the configuration is the
  new one.
\<close>

theorem updateConfig_always_rebuilds:
  assumes "well_formed w"
  shows "live (snd (updateConfig ctor env newConfig w)) = json_copy (mergeConfig (live w) newConfig)
   \<and> (ctor (makeModel env (live (snd (updateConfig ctor env newConfig w)))) = None
      \<longrightarrow> fst (updateConfig ctor env newConfig w) = None
        \<and> this_model (snd (updateConfig ctor env newConfig w)) \<noteq> this_model w
        \<and> nextRef w \<le> this_model (snd (updateConfig ctor env newConfig w))
        \<and> models (snd (updateConfig ctor env newConfig w))
             (this_model (snd (updateConfig ctor env newConfig w)))
            = Some (makeModel env (live (snd (updateConfig ctor env newConfig w)))))
   \<and> (ctor (makeModel env (live (snd (updateConfig ctor env newConfig w)))) = Some e
      \<longrightarrow> fst (updateConfig ctor env newConfig w) = Some e
        \<and> this_model (snd (updateConfig ctor env newConfig w)) = this_model w
        \<and> models (snd (updateConfig ctor env newConfig w)) = models w)"
proof -
  have a: "live (snd (updateConfig ctor env newConfig w)) = json_copy (mergeConfig (live w) newConfig)"
    by (rule live_updateConfig)
  have b: "ctor (makeModel env (json_copy (mergeConfig (live w) newConfig))) = None
      \<longrightarrow> fst (updateConfig ctor env newConfig w) = None
        \<and> this_model (snd (updateConfig ctor env newConfig w)) \<noteq> this_model w
        \<and> nextRef w \<le> this_model (snd (updateConfig ctor env newConfig w))
        \<and> models (snd (updateConfig ctor env newConfig w))
             (this_model (snd (updateConfig ctor env newConfig w)))
            = Some (makeModel env (json_copy (mergeConfig (live w) newConfig)))"
    using assms
    by (simp add: well_formed_def updateConfig_def new_config_def new_model_def Let_def live_def
        deref_def getConfig_def)
  have c: "ctor (makeModel env (json_copy (mergeConfig (live w) newConfig))) = Some e
      \<longrightarrow> fst (updateConfig ctor env newConfig w) = Some e
        \<and> this_model (snd (updateConfig ctor env newConfig w)) = this_model w
        \<and> models (snd (updateConfig ctor env newConfig w)) = models w"
    by (simp add: updateConfig_def new_config_def new_model_def Let_def live_def
        deref_def getConfig_def)
  from a b c show ?thesis by simp
qed

theorem updateConfig_always_rebuilds_witness:
  "well_formed running
   \<and> needs_key (makeModel key_env
        (live (snd (updateConfig needs_key key_env (no_change\<lparr> p_saveFormat := Some ''markdown'' \<rparr>) running))))
       = None
   \<and> this_model (snd (updateConfig needs_key key_env (no_change\<lparr> p_saveFormat := Some ''markdown'' \<rparr>) running))
       \<noteq> this_model running
   \<and> models (snd (updateConfig needs_key key_env (no_change\<lparr> p_saveFormat := Some ''markdown'' \<rparr>) running))
        (this_model (snd (updateConfig needs_key key_env (no_change\<lparr> p_saveFormat := Some ''markdown'' \<rparr>) running)))
       = Some (makeModel key_env
           (live (snd (updateConfig needs_key key_env (no_change\<lparr> p_saveFormat := Some ''markdown'' \<rparr>) running))))
   \<and> well_formed (started openai_env openai_config)
   \<and> needs_key (makeModel openai_env
        (live (snd (updateConfig needs_key openai_env (no_change\<lparr> p_provider := Some Anthropic \<rparr>)
                      (started openai_env openai_config)))))
       = Some (ErrorObject ''Anthropic API key not found'')
   \<and> fst (updateConfig needs_key openai_env (no_change\<lparr> p_provider := Some Anthropic \<rparr>)
             (started openai_env openai_config))
       = Some (ErrorObject ''Anthropic API key not found'')
   \<and> this_model (snd (updateConfig needs_key openai_env (no_change\<lparr> p_provider := Some Anthropic \<rparr>)
             (started openai_env openai_config)))
       = this_model (started openai_env openai_config)
   \<and> provider (live (snd (updateConfig needs_key openai_env (no_change\<lparr> p_provider := Some Anthropic \<rparr>)
             (started openai_env openai_config))))
       = Anthropic"
proof -
  have k: "needs_key (makeModel key_env
        (live (snd (updateConfig needs_key key_env (no_change\<lparr> p_saveFormat := Some ''markdown'' \<rparr>) running))))
       = None"
    by (simp add: live_updateConfig live_running mergeConfig_def json_copy_def no_change_def
        defaultConfig_def makeModel_def needs_key_def key_env_def or_else_def)
  have t: "needs_key (makeModel openai_env
        (live (snd (updateConfig needs_key openai_env (no_change\<lparr> p_provider := Some Anthropic \<rparr>)
                      (started openai_env openai_config)))))
       = Some (ErrorObject ''Anthropic API key not found'')"
    by (simp add: live_updateConfig live_started mergeConfig_def json_copy_def no_change_def
        openai_config_def makeModel_def needs_key_def openai_env_def or_else_def)
  have p: "provider (live (snd (updateConfig needs_key openai_env (no_change\<lparr> p_provider := Some Anthropic \<rparr>)
             (started openai_env openai_config))))
       = Anthropic"
    by (simp add: live_updateConfig mergeConfig_def json_copy_def no_change_def)
  have w1: "well_formed running"
    by (simp add: running_def well_formed_started)
  have w2: "well_formed (started openai_env openai_config)"
    by (rule well_formed_started)
  show ?thesis
    using updateConfig_always_rebuilds
        [OF w1, where ctor = needs_key and env = key_env
           and newConfig = "no_change\<lparr> p_saveFormat := Some ''markdown'' \<rparr>"]
      updateConfig_always_rebuilds
        [OF w2, where ctor = needs_key and env = openai_env
           and newConfig = "no_change\<lparr> p_provider := Some Anthropic \<rparr>"
           and e = "ErrorObject ''Anthropic API key not found''"]
      k t p w1 w2
    by simp
qed

subsection \<open>C4: what getConfig hands out\<close>

text \<open>
  C4 says that a caller cannot change the live configuration through the value that
  \<^verbatim>\<open>getConfig\<close> returned. After the start of the program, assigning \<^verbatim>\<open>'changed'\<close> to the
  \<^verbatim>\<open>model\<close> property of the returned object changes what the next \<^verbatim>\<open>getConfig\<close> shows.
\<close>

theorem getConfig_snapshot_counterexample:
  "boot needs_key key_env = Inr running
   \<and> model (live running) = ''claude-3-opus-20240229''
   \<and> model (live (mutate (getConfig running) (\<lambda>c. c\<lparr> model := ''changed'' \<rparr>) running))
       = ''changed''"
  using boot_running
  by (simp add: live_def mutate_def getConfig_def deref_def running_def started_def
      defaultConfig_def)

text \<open>
  C4 as amended. \<^verbatim>\<open>getConfig\<close> returns the live object itself, so a change made through
  the returned reference is the change the next \<^verbatim>\<open>getConfig\<close> shows. \<^verbatim>\<open>updateConfig\<close>
  installs a new object, whether it returns or throws: a reference returned before the
  update is not the live object after it, and a change made through it then leaves the
  live configuration as it is.
\<close>

theorem getConfig_aliasing:
  assumes "well_formed w"
  shows "getConfig (mutate (getConfig w) g w) = getConfig w
   \<and> live (mutate (getConfig w) g w) = g (live w)
   \<and> getConfig (snd (updateConfig ctor env newConfig w)) \<noteq> getConfig w
   \<and> getConfig (mutate (getConfig w) g (snd (updateConfig ctor env newConfig w)))
       = getConfig (snd (updateConfig ctor env newConfig w))
   \<and> live (mutate (getConfig w) g (snd (updateConfig ctor env newConfig w)))
       = live (snd (updateConfig ctor env newConfig w))"
  using assms
  by (auto simp add: well_formed_def live_def mutate_def getConfig_def deref_def updateConfig_def
      new_config_def new_model_def Let_def split: option.splits)

theorem getConfig_aliasing_witness:
  "well_formed running
   \<and> live (mutate (getConfig running) (\<lambda>c. c\<lparr> model := ''changed'' \<rparr>) running)
       = (live running)\<lparr> model := ''changed'' \<rparr>
   \<and> getConfig (snd (updateConfig needs_key key_env no_change running)) \<noteq> getConfig running
   \<and> live (mutate (getConfig running) (\<lambda>c. c\<lparr> model := ''changed'' \<rparr>)
             (snd (updateConfig needs_key key_env no_change running)))
       = live (snd (updateConfig needs_key key_env no_change running))"
proof -
  have w: "well_formed running"
    by (simp add: running_def well_formed_started)
  show ?thesis
    using getConfig_aliasing
        [OF w, where g = "\<lambda>c. c\<lparr> model := ''changed'' \<rparr>"
           and ctor = needs_key and env = key_env and newConfig = no_change]
      w
    by simp
qed

section \<open>Sending\<close>

subsection \<open>C5: the system prompt in front of the conversation\<close>

text \<open>
  C5. With a system prompt set (a string that is not empty, which is what the test
  \<^verbatim>\<open>this.config.systemPrompt && ...\<close> asks), the sequence handed to the provider is the
  conversation with a system message holding the prompt in front of it when no message
  of the conversation has the role \<^verbatim>\<open>system\<close>, and the conversation alone when one has.
  \<^verbatim>\<open>sendMessage\<close> calls the adapter on that sequence and returns its reply, or fails with
  the message built from the provider's name and the error. The conversation is an
  argument that is only read, and \<^verbatim>\<open>sendMessage\<close> returns no world: nothing is written.
\<close>

theorem sendMessage_system_prompt:
  assumes "systemPrompt (live w) = Some p" and "p \<noteq> []"
  shows "outgoing (live w) C =
           (if list_ex (\<lambda>msg. role msg = System) C then convertToLangChainMessages C
            else convertToLangChainMessages (\<lparr> role = System, content = p \<rparr> # C))
         \<and> sendMessage invoke w C =
           (case invoke (the (models w (this_model w))) (outgoing (live w) C) of
              Inr response \<Rightarrow> Inr response
            | Inl error \<Rightarrow> Inl (''Failed to get response from '' @ provider_name (provider (live w))
                                  @ '': '' @ error_message error))"
proof -
  have "outgoing (live w) C =
           (if list_ex (\<lambda>msg. role msg = System) C then convertToLangChainMessages C
            else convertToLangChainMessages (\<lparr> role = System, content = p \<rparr> # C))"
    using assms by (simp add: outgoing_def convertToLangChainMessages_def)
  moreover have "sendMessage invoke w C =
           (case invoke (the (models w (this_model w))) (outgoing (live w) C) of
              Inr response \<Rightarrow> Inr response
            | Inl error \<Rightarrow> Inl (''Failed to get response from '' @ provider_name (provider (live w))
                                  @ '': '' @ error_message error))"
    unfolding sendMessage_def deref_this_config Let_def ..
  ultimately show ?thesis by blast
qed

theorem sendMessage_system_prompt_witness:
  "systemPrompt (live running) = Some ''You are a helpful AI assistant.''
   \<and> ''You are a helpful AI assistant.'' \<noteq> []
   \<and> outgoing (live running) hi_hello =
       [SystemMessage ''You are a helpful AI assistant.'', HumanMessage ''hi'', AIMessage ''hello'']"
proof -
  have a: "systemPrompt (live running) = Some ''You are a helpful AI assistant.''"
    by (simp add: live_running defaultConfig_def)
  have b: "''You are a helpful AI assistant.'' \<noteq> []" by simp
  show ?thesis
    using sendMessage_system_prompt [OF a b, of hi_hello] a
    by (simp add: hi_hello_def convertToLangChainMessages_def)
qed

section \<open>Saving\<close>

subsection \<open>C2: the file name and the markdown text\<close>

text \<open>
  C2 says that a title gives the file name \<^verbatim>\<open><timestamp>-<slug>-chat.md\<close>. With the
  markdown format, the clock at \<^verbatim>\<open>2024-05-06T12:00:00.000Z\<close> and the title \<^verbatim>\<open>Demo\<close> the
  file name is \<^verbatim>\<open>2024-05-06T12-00-00-000Z-demo.md\<close>: the slug takes the place of
  \<^verbatim>\<open>chat\<close>. On a disk that holds the working directory only, \<^verbatim>\<open>saveChat\<close> makes the
  directory and returns the path \<^verbatim>\<open>chats/2024-05-06T12-00-00-000Z-demo.md\<close>.
\<close>

theorem filename_counterexample:
  "boot_with needs_key key_env demo_config = Inr (started key_env demo_config)
   \<and> saveFormat (live (started key_env demo_config)) = Some ''markdown''
   \<and> filename noon (live (started key_env demo_config)) (Some ''Demo'')
       = ''2024-05-06T12-00-00-000Z-demo.md''
   \<and> filename noon (live (started key_env demo_config)) (Some ''Demo'')
       \<noteq> timestamp (iso_for_name noon) @ ''-'' @ slug ''Demo'' @ ''-chat.md''
   \<and> fst (saveChat disk_ops key_env noon (started key_env demo_config) hi_hello (Some ''Demo'')
            empty_disk)
       = Inr ''chats/2024-05-06T12-00-00-000Z-demo.md''"
proof -
  have b: "boot_with needs_key key_env demo_config = Inr (started key_env demo_config)"
    using boot_demo [of "saveFormat demo_config"] by simp
  have d: "save_dir key_env demo_config = ''./chats''"
    by (simp add: save_dir_default demo_config_def)
  have s: "fst (saveChat disk_ops key_env noon (started key_env demo_config) hi_hello (Some ''Demo'')
            empty_disk)
       = Inr ''chats/2024-05-06T12-00-00-000Z-demo.md''"
  proof -
    have r: "(if \<not> existsSync disk_ops empty_disk (save_dir key_env (live (started key_env demo_config)))
              then mkdirSync disk_ops empty_disk (save_dir key_env (live (started key_env demo_config)))
              else (None, empty_disk))
             = (None, \<lparr> dirs = [''chats'', ''.''], files = [] \<rparr>)"
      unfolding live_started d by (rule ready_empty_disk)
    show ?thesis
      using saveChat_ready [OF r, of noon hi_hello "Some ''Demo''"]
      by (simp add: live_started d name_demo disk_ops_def path_demo normal_demo dirname_demo)
  qed
  have n: "filename noon demo_config (Some ''Demo'')
       \<noteq> timestamp (iso_for_name noon) @ ''-'' @ slug ''Demo'' @ ''-chat.md''"
  proof -
    have "timestamp (iso_for_name noon) @ ''-'' @ slug ''Demo'' @ ''-chat.md''
            = ''2024-05-06T12-00-00-000Z-demo-chat.md''"
      by (simp add: noon_def timestamp_def slug_def is_alnum_def is_digit_def toLowerCase_def
          char_of_def bit_0)
    then show ?thesis by (simp add: name_demo)
  qed
  show ?thesis
  proof -
    have f: "saveFormat demo_config = Some ''markdown''"
      by (simp add: demo_config_def)
    from b s n f name_demo show ?thesis
      by (simp add: live_started)
  qed
qed

text \<open>
  C2 as amended. Take the markdown format, a title that is not empty, and any file system
  on which the save directory is there after the first step of \<^verbatim>\<open>saveChat\<close> (it existed,
  or \<^verbatim>\<open>mkdirSync\<close> made it). Then \<^verbatim>\<open>saveChat\<close> hands to \<^verbatim>\<open>writeFileSync\<close> the path that
  \<^verbatim>\<open>path.join\<close> makes of the save directory and the file name, which is the timestamp with
  \<^verbatim>\<open>:\<close> and \<^verbatim>\<open>.\<close> replaced by \<^verbatim>\<open>-\<close>, then \<^verbatim>\<open>-\<close>, then the title with every character
  outside \<^verbatim>\<open>[A-Za-z0-9]\<close> replaced by \<^verbatim>\<open>-\<close> and the letters in lower case, then \<^verbatim>\<open>.md\<close>;
  and the text, which is the title line, the model line, a rule, and a section for each
  message in the order of the conversation. When the write returns, \<^verbatim>\<open>saveChat\<close> returns
  that path and the file system is as the write left it; when the write throws, the
  save fails with its error. For the conversation \<^verbatim>\<open>[{user, "hi"}, {assistant, "hello"}]\<close>
  the sections are \<^verbatim>\<open>## User\<close> with \<^verbatim>\<open>hi\<close> and \<^verbatim>\<open>## Assistant\<close> with \<^verbatim>\<open>hello\<close>, in that
  order.
\<close>

theorem markdown_transcript:
  assumes "saveFormat (live w) = Some ''markdown''" and "t \<noteq> []"
    and "(if \<not> existsSync ops fs (save_dir env (live w))
          then mkdirSync ops fs (save_dir env (live w)) else (None, fs)) = (None, fsm)"
  shows "saveChat ops env clk w C (Some t) fs =
     (case writeFileSync ops fsm
             (path_join ops (save_dir env (live w))
                (timestamp (iso_for_name clk) @ ''-''
                 @ map (\<lambda>c. if is_alnum c then toLowerCase c else CHR ''-'') t @ ''.md''))
             (''# Chat - '' @ locale_for_title clk @ [nl, nl]
              @ ''**Model**: '' @ model (live w) @ '' ('' @ provider_name (provider (live w)) @ '')''
              @ [nl, nl] @ ''---'' @ [nl, nl] @ concat (map markdown_section C)) of
        (thrown2, fs2) \<Rightarrow>
          (case thrown2 of
             Some error \<Rightarrow> (Inl (''Failed to save chat: '' @ error_message error), fs2)
           | None \<Rightarrow>
               (Inr (path_join ops (save_dir env (live w))
                       (timestamp (iso_for_name clk) @ ''-''
                        @ map (\<lambda>c. if is_alnum c then toLowerCase c else CHR ''-'') t @ ''.md'')),
                fs2)))
     \<and> concat (map markdown_section hi_hello)
         = ''## User'' @ [nl, nl] @ ''hi'' @ [nl, nl] @ ''---'' @ [nl, nl]
           @ ''## Assistant'' @ [nl, nl] @ ''hello'' @ [nl, nl] @ ''---'' @ [nl, nl]"
proof -
  have a: "filename clk (live w) (Some t)
           = timestamp (iso_for_name clk) @ ''-''
             @ map (\<lambda>c. if is_alnum c then toLowerCase c else CHR ''-'') t @ ''.md''"
    using assms(1,2) by (simp add: filename_def fileExtension_def formatToUse_def slug_eq)
  have b: "file_content clk (live w) C
           = ''# Chat - '' @ locale_for_title clk @ [nl, nl]
              @ ''**Model**: '' @ model (live w) @ '' ('' @ provider_name (provider (live w)) @ '')''
              @ [nl, nl] @ ''---'' @ [nl, nl] @ concat (map markdown_section C)"
    using assms(1) by (simp add: file_content_def formatToUse_def markdownContent_def)
  have c: "concat (map markdown_section hi_hello)
         = ''## User'' @ [nl, nl] @ ''hi'' @ [nl, nl] @ ''---'' @ [nl, nl]
           @ ''## Assistant'' @ [nl, nl] @ ''hello'' @ [nl, nl] @ ''---'' @ [nl, nl]"
    by (simp add: markdown_section_def hi_hello_def)
  show ?thesis
    using saveChat_ready [OF assms(3), of clk C "Some t"] c
    unfolding a b by simp
qed

theorem markdown_transcript_witness:
  "saveFormat (live (started key_env demo_config)) = Some ''markdown''
   \<and> ''Demo'' \<noteq> []
   \<and> (if \<not> existsSync disk_ops empty_disk (save_dir key_env (live (started key_env demo_config)))
       then mkdirSync disk_ops empty_disk (save_dir key_env (live (started key_env demo_config)))
       else (None, empty_disk))
      = (None, \<lparr> dirs = [''chats'', ''.''], files = [] \<rparr>)
   \<and> fst (saveChat disk_ops key_env noon (started key_env demo_config) hi_hello (Some ''Demo'')
            empty_disk)
       = Inr ''chats/2024-05-06T12-00-00-000Z-demo.md''
   \<and> read_file (snd (saveChat disk_ops key_env noon (started key_env demo_config) hi_hello
                        (Some ''Demo'') empty_disk))
         ''chats/2024-05-06T12-00-00-000Z-demo.md''
       = Some (''# Chat - 5/6/2024, 12:00:00 PM'' @ [nl, nl]
               @ ''**Model**: m1 (anthropic)'' @ [nl, nl] @ ''---'' @ [nl, nl]
               @ ''## User'' @ [nl, nl] @ ''hi'' @ [nl, nl] @ ''---'' @ [nl, nl]
               @ ''## Assistant'' @ [nl, nl] @ ''hello'' @ [nl, nl] @ ''---'' @ [nl, nl])"
proof -
  have a: "saveFormat (live (started key_env demo_config)) = Some ''markdown''"
    by (simp add: live_started demo_config_def)
  have b: "''Demo'' \<noteq> []" by simp
  have d: "save_dir key_env (live (started key_env demo_config)) = ''./chats''"
    by (simp add: live_started save_dir_default demo_config_def)
  have r: "(if \<not> existsSync disk_ops empty_disk (save_dir key_env (live (started key_env demo_config)))
       then mkdirSync disk_ops empty_disk (save_dir key_env (live (started key_env demo_config)))
       else (None, empty_disk))
      = (None, \<lparr> dirs = [''chats'', ''.''], files = [] \<rparr>)"
    unfolding d by (rule ready_empty_disk)
  have n: "timestamp (iso_for_name noon) @ ''-''
             @ map (\<lambda>c. if is_alnum c then toLowerCase c else CHR ''-'') ''Demo'' @ ''.md''
           = ''2024-05-06T12-00-00-000Z-demo.md''"
    by (simp add: noon_def timestamp_def is_alnum_def is_digit_def toLowerCase_def char_of_def bit_0)
  have m: "model (live (started key_env demo_config)) = ''m1''"
    "provider_name (provider (live (started key_env demo_config))) = ''anthropic''"
    "locale_for_title noon = ''5/6/2024, 12:00:00 PM''"
    by (simp_all add: live_started demo_config_def noon_def)
  show ?thesis
    using markdown_transcript [OF a b r, of noon hi_hello] a r
    unfolding n d m
    by (simp add: disk_ops_def path_demo normal_demo dirname_demo read_file_def)
qed

subsection \<open>C6: a failing file system\<close>

text \<open>
  C6 says that a failed save reports an error that names the path of the file, and
  leaves no partly written file. On a disk with no space left, the message of the error
  is \<^verbatim>\<open>Failed to save chat: ENOSPC: no space left on device, write\<close>, in which the path
  \<^verbatim>\<open>chats/2024-05-06T12-00-00-000Z-chat.json\<close> does not occur, and the file is left
  there, empty, while the text to be written is not empty.
\<close>

theorem save_failure_counterexample:
  "boot needs_key key_env = Inr running
   \<and> fst (saveChat full_disk_ops key_env noon running hi_hello None empty_disk)
     = Inl ''Failed to save chat: ENOSPC: no space left on device, write''
   \<and> path_join full_disk_ops (save_dir key_env (live running)) (filename noon (live running) None)
     = ''chats/2024-05-06T12-00-00-000Z-chat.json''
   \<and> \<not> occurs_in ''chats/2024-05-06T12-00-00-000Z-chat.json''
         ''Failed to save chat: ENOSPC: no space left on device, write''
   \<and> read_file (snd (saveChat full_disk_ops key_env noon running hi_hello None empty_disk))
         ''chats/2024-05-06T12-00-00-000Z-chat.json''
     = Some []
   \<and> file_content noon (live running) hi_hello \<noteq> []"
proof -
  have r: "(if \<not> existsSync full_disk_ops empty_disk (save_dir key_env (live running))
            then mkdirSync full_disk_ops empty_disk (save_dir key_env (live running))
            else (None, empty_disk))
           = (None, \<lparr> dirs = [''chats'', ''.''], files = [] \<rparr>)"
    unfolding save_dir_running by (rule ready_full_disk)
  have p: "path_join full_disk_ops (save_dir key_env (live running)) (filename noon (live running) None)
     = ''chats/2024-05-06T12-00-00-000Z-chat.json''"
    by (simp add: save_dir_running name_running full_disk_ops_def disk_ops_def path_chat)
  have s: "saveChat full_disk_ops key_env noon running hi_hello None empty_disk
     = (Inl ''Failed to save chat: ENOSPC: no space left on device, write'',
        \<lparr> dirs = [''chats'', ''.''], files = [(''chats/2024-05-06T12-00-00-000Z-chat.json'', [])] \<rparr>)"
    using saveChat_ready [OF r, of noon hi_hello None]
    unfolding p
    by (simp add: full_disk_ops_def disk_ops_def normal_chat)
  have c: "file_content noon (live running) hi_hello \<noteq> []"
    by (simp add: file_content_def formatToUse_def chatData_def live_running defaultConfig_def
        key_env_def)
  have o: "\<not> occurs_in ''chats/2024-05-06T12-00-00-000Z-chat.json''
         ''Failed to save chat: ENOSPC: no space left on device, write''"
    by simp
  show ?thesis
    using boot_running p s c o
    by (simp add: read_file_def normal_chat)
qed

text \<open>
  C6 as amended. A save fails when \<^verbatim>\<open>mkdirSync\<close> or \<^verbatim>\<open>writeFileSync\<close> throws, and then with
  one error whose message is \<^verbatim>\<open>Failed to save chat: \<close> followed by the message of what
  was thrown; the file system is left as the failing call left it. Every failure of
  \<^verbatim>\<open>saveChat\<close> has a message of that form.
\<close>

theorem save_failure:
  "(\<not> existsSync ops fs (save_dir env (live w))
      \<and> mkdirSync ops fs (save_dir env (live w)) = (Some e, fs')
     \<longrightarrow> saveChat ops env clk w C title fs
           = (Inl (''Failed to save chat: '' @ error_message e), fs'))
   \<and> ((if \<not> existsSync ops fs (save_dir env (live w))
         then mkdirSync ops fs (save_dir env (live w)) else (None, fs)) = (None, fsm)
      \<and> writeFileSync ops fsm
           (path_join ops (save_dir env (live w)) (filename clk (live w) title))
           (file_content clk (live w) C) = (Some e, fs')
     \<longrightarrow> saveChat ops env clk w C title fs
           = (Inl (''Failed to save chat: '' @ error_message e), fs'))
   \<and> (fst (saveChat ops env clk w C title fs) = Inl m
     \<longrightarrow> (\<exists>e. m = ''Failed to save chat: '' @ error_message e))"
proof -
  have a: "\<not> existsSync ops fs (save_dir env (live w))
      \<and> mkdirSync ops fs (save_dir env (live w)) = (Some e, fs')
     \<longrightarrow> saveChat ops env clk w C title fs
           = (Inl (''Failed to save chat: '' @ error_message e), fs')"
    by (simp add: saveChat_def deref_this_config Let_def)
  have b: "(if \<not> existsSync ops fs (save_dir env (live w))
         then mkdirSync ops fs (save_dir env (live w)) else (None, fs)) = (None, fsm)
      \<and> writeFileSync ops fsm
           (path_join ops (save_dir env (live w)) (filename clk (live w) title))
           (file_content clk (live w) C) = (Some e, fs')
     \<longrightarrow> saveChat ops env clk w C title fs
           = (Inl (''Failed to save chat: '' @ error_message e), fs')"
    by (simp add: saveChat_def deref_this_config Let_def)
  have c: "fst (saveChat ops env clk w C title fs) = Inl m
     \<longrightarrow> (\<exists>e. m = ''Failed to save chat: '' @ error_message e)"
    by (auto simp add: saveChat_def deref_this_config Let_def
        split: prod.splits option.splits if_splits)
  from a b c show ?thesis by blast
qed

theorem save_failure_witness:
  "\<not> existsSync read_only_ops empty_disk (save_dir key_env (live running))
   \<and> mkdirSync read_only_ops empty_disk (save_dir key_env (live running))
       = (Some (ErrorObject (''EACCES: permission denied, mkdir '' @ [CHR 0x27] @ ''./chats'' @ [CHR 0x27])),
          empty_disk)
   \<and> saveChat read_only_ops key_env noon running hi_hello None empty_disk
       = (Inl (''Failed to save chat: EACCES: permission denied, mkdir '' @ [CHR 0x27] @ ''./chats'' @ [CHR 0x27]),
          empty_disk)
   \<and> fst (writeFileSync full_disk_ops \<lparr> dirs = [''chats'', ''.''], files = [] \<rparr>
         (path_join full_disk_ops (save_dir key_env (live running))
            (filename noon (live running) None))
         (file_content noon (live running) hi_hello))
       = Some (ErrorObject ''ENOSPC: no space left on device, write'')
   \<and> fst (saveChat full_disk_ops key_env noon running hi_hello None empty_disk)
       = Inl ''Failed to save chat: ENOSPC: no space left on device, write''
   \<and> (\<exists>e. ''Failed to save chat: ENOSPC: no space left on device, write''
            = ''Failed to save chat: '' @ error_message e)"
proof -
  have a: "\<not> existsSync read_only_ops empty_disk (save_dir key_env (live running))
     \<and> mkdirSync read_only_ops empty_disk (save_dir key_env (live running))
       = (Some (ErrorObject (''EACCES: permission denied, mkdir '' @ [CHR 0x27] @ ''./chats'' @ [CHR 0x27])),
          empty_disk)"
    by (simp add: save_dir_running read_only_ops_def disk_ops_def empty_disk_def normalize_chats
        read_file_def)
  have r: "(if \<not> existsSync full_disk_ops empty_disk (save_dir key_env (live running))
            then mkdirSync full_disk_ops empty_disk (save_dir key_env (live running))
            else (None, empty_disk))
           = (None, \<lparr> dirs = [''chats'', ''.''], files = [] \<rparr>)"
    unfolding save_dir_running by (rule ready_full_disk)
  have b: "writeFileSync full_disk_ops \<lparr> dirs = [''chats'', ''.''], files = [] \<rparr>
         (path_join full_disk_ops (save_dir key_env (live running))
            (filename noon (live running) None))
         (file_content noon (live running) hi_hello)
       = (Some (ErrorObject ''ENOSPC: no space left on device, write''),
          \<lparr> dirs = [''chats'', ''.''],
            files = [(posix_normalize (path_join full_disk_ops (save_dir key_env (live running))
                        (filename noon (live running) None)), [])] \<rparr>)"
    by (simp add: full_disk_ops_def)
  have f1: "saveChat read_only_ops key_env noon running hi_hello None empty_disk
       = (Inl (''Failed to save chat: EACCES: permission denied, mkdir '' @ [CHR 0x27] @ ''./chats'' @ [CHR 0x27]),
          empty_disk)"
    using save_failure
      [where ops = read_only_ops and fs = empty_disk and env = key_env and w = running
         and e = "ErrorObject (''EACCES: permission denied, mkdir '' @ [CHR 0x27] @ ''./chats'' @ [CHR 0x27])"
         and fs' = empty_disk and clk = noon and C = hi_hello and title = None]
      a
    by simp
  have f2: "fst (saveChat full_disk_ops key_env noon running hi_hello None empty_disk)
       = Inl ''Failed to save chat: ENOSPC: no space left on device, write''"
    using save_failure
      [where ops = full_disk_ops and fs = empty_disk and env = key_env and w = running
         and e = "ErrorObject ''ENOSPC: no space left on device, write''"
         and fsm = "\<lparr> dirs = [''chats'', ''.''], files = [] \<rparr>" and clk = noon and C = hi_hello
         and title = None
         and fs' = "\<lparr> dirs = [''chats'', ''.''],
            files = [(posix_normalize (path_join full_disk_ops (save_dir key_env (live running))
                        (filename noon (live running) None)), [])] \<rparr>"]
      r b
    by simp
  have f3: "\<exists>e. ''Failed to save chat: ENOSPC: no space left on device, write''
            = ''Failed to save chat: '' @ error_message e"
    using save_failure
      [where ops = full_disk_ops and fs = empty_disk and env = key_env and w = running
         and clk = noon and C = hi_hello and title = None
         and m = "''Failed to save chat: ENOSPC: no space left on device, write''"]
      f2
    by blast
  from a b f1 f2 f3 show ?thesis by simp
qed

subsection \<open>C7: the choice of the encoding\<close>

text \<open>
  C7. Take any file system on which the save directory is there after the first step of
  \<^verbatim>\<open>saveChat\<close> (it existed, or \<^verbatim>\<open>mkdirSync\<close> made it). What \<^verbatim>\<open>saveChat\<close> hands to
  \<^verbatim>\<open>writeFileSync\<close> is the file name with the extension \<^verbatim>\<open>.md\<close> and the markdown text
  exactly when \<^verbatim>\<open>saveFormat\<close> is \<^verbatim>\<open>'markdown'\<close>; with an absent, empty or any other value
  it is the file name with the extension \<^verbatim>\<open>.json\<close> and the text
  \<^verbatim>\<open>JSON.stringify(chatData, null, 2)\<close>, which \<^verbatim>\<open>JSON.parse\<close> reads back as \<^verbatim>\<open>chatData\<close>:
  a valid json text. The save returns the path when the write returns, with the file
  system as the write left it, and fails only when the write throws: the value of
  \<^verbatim>\<open>saveFormat\<close> never makes it fail.
\<close>

theorem save_format_choice:
  assumes "(if \<not> existsSync ops fs (save_dir env (live w))
            then mkdirSync ops fs (save_dir env (live w)) else (None, fs)) = (None, fsm)"
  shows "saveChat ops env clk w C title fs =
     (case writeFileSync ops fsm
             (path_join ops (save_dir env (live w))
                (timestamp (iso_for_name clk)
                 @ (if truthy title then ''-'' @ slug (the title) else ''-chat'')
                 @ (if saveFormat (live w) = Some ''markdown'' then ''.md'' else ''.json'')))
             (if saveFormat (live w) = Some ''markdown'' then markdownContent clk (live w) C
              else stringify 0 (chatData clk (live w) C)) of
        (thrown2, fs2) \<Rightarrow>
          (case thrown2 of
             Some error \<Rightarrow> (Inl (''Failed to save chat: '' @ error_message error), fs2)
           | None \<Rightarrow>
               (Inr (path_join ops (save_dir env (live w))
                       (timestamp (iso_for_name clk)
                        @ (if truthy title then ''-'' @ slug (the title) else ''-chat'')
                        @ (if saveFormat (live w) = Some ''markdown'' then ''.md'' else ''.json''))),
                fs2)))
     \<and> JSON_parse (stringify 0 (chatData clk (live w) C)) = Some (chatData clk (live w) C)"
proof -
  have a: "filename clk (live w) title
       = timestamp (iso_for_name clk)
         @ (if truthy title then ''-'' @ slug (the title) else ''-chat'')
         @ (if saveFormat (live w) = Some ''markdown'' then ''.md'' else ''.json'')"
    by (simp add: filename_def fileExtension_def formatToUse_def)
  have b: "file_content clk (live w) C
       = (if saveFormat (live w) = Some ''markdown'' then markdownContent clk (live w) C
          else stringify 0 (chatData clk (live w) C))"
    by (simp add: file_content_def formatToUse_def)
  show ?thesis
    using saveChat_ready [OF assms, of clk C title] JSON_parse_stringify [of "chatData clk (live w) C"]
    unfolding a b by simp
qed

theorem save_format_choice_witness:
  "(if \<not> existsSync disk_ops empty_disk
         (save_dir key_env (live (started key_env (demo_config\<lparr> saveFormat := Some ''yaml'' \<rparr>))))
    then mkdirSync disk_ops empty_disk
         (save_dir key_env (live (started key_env (demo_config\<lparr> saveFormat := Some ''yaml'' \<rparr>))))
    else (None, empty_disk))
     = (None, \<lparr> dirs = [''chats'', ''.''], files = [] \<rparr>)
   \<and> fst (saveChat disk_ops key_env noon (started key_env (demo_config\<lparr> saveFormat := Some ''yaml'' \<rparr>))
            hi_hello None empty_disk)
       = Inr ''chats/2024-05-06T12-00-00-000Z-chat.json''
   \<and> read_file (snd (saveChat disk_ops key_env noon
                        (started key_env (demo_config\<lparr> saveFormat := Some ''yaml'' \<rparr>))
                        hi_hello None empty_disk))
         ''chats/2024-05-06T12-00-00-000Z-chat.json''
       = Some (stringify 0 (chatData noon (demo_config\<lparr> saveFormat := Some ''yaml'' \<rparr>) hi_hello))
   \<and> fst (saveChat disk_ops key_env noon (started key_env (demo_config\<lparr> saveFormat := None \<rparr>))
            hi_hello None empty_disk)
       = Inr ''chats/2024-05-06T12-00-00-000Z-chat.json''
   \<and> fst (saveChat disk_ops key_env noon (started key_env (demo_config\<lparr> saveFormat := Some [] \<rparr>))
            hi_hello None empty_disk)
       = Inr ''chats/2024-05-06T12-00-00-000Z-chat.json''
   \<and> fst (saveChat disk_ops key_env noon (started key_env demo_config) hi_hello None empty_disk)
       = Inr ''chats/2024-05-06T12-00-00-000Z-chat.md''
   \<and> read_file (snd (saveChat disk_ops key_env noon (started key_env demo_config) hi_hello None
                        empty_disk))
         ''chats/2024-05-06T12-00-00-000Z-chat.md''
       = Some (markdownContent noon demo_config hi_hello)"
proof -
  have d: "\<And>x. save_dir key_env (live (started key_env (demo_config\<lparr> saveFormat := x \<rparr>))) = ''./chats''"
    by (simp add: live_started save_dir_default demo_config_def)
  have r: "\<And>x. (if \<not> existsSync disk_ops empty_disk
              (save_dir key_env (live (started key_env (demo_config\<lparr> saveFormat := x \<rparr>))))
            then mkdirSync disk_ops empty_disk
              (save_dir key_env (live (started key_env (demo_config\<lparr> saveFormat := x \<rparr>))))
            else (None, empty_disk))
           = (None, \<lparr> dirs = [''chats'', ''.''], files = [] \<rparr>)"
    unfolding d by (rule ready_empty_disk)
  have t: "timestamp (iso_for_name noon) = ''2024-05-06T12-00-00-000Z''"
    by (simp add: noon_def timestamp_def)
  have pm: "posix_join ''./chats'' ''2024-05-06T12-00-00-000Z-chat.md''
              = ''chats/2024-05-06T12-00-00-000Z-chat.md''"
    by (simp add: posix_join_def posix_normalize_def)
  have nm: "posix_normalize ''chats/2024-05-06T12-00-00-000Z-chat.md''
              = ''chats/2024-05-06T12-00-00-000Z-chat.md''"
    by (simp add: posix_normalize_def)
  have dm: "posix_dirname ''chats/2024-05-06T12-00-00-000Z-chat.md'' = ''chats''"
    by (simp add: posix_dirname_def)
  have e: "demo_config\<lparr> saveFormat := Some ''markdown'' \<rparr> = demo_config"
    by (simp add: demo_config_def)
  have f: "saveFormat demo_config = Some ''markdown''"
    by (simp add: demo_config_def)
  have j: "saveChat disk_ops key_env noon (started key_env (demo_config\<lparr> saveFormat := x \<rparr>))
        hi_hello None empty_disk
      = (Inr ''chats/2024-05-06T12-00-00-000Z-chat.json'',
         \<lparr> dirs = [''chats'', ''.''],
           files = [(''chats/2024-05-06T12-00-00-000Z-chat.json'',
                     stringify 0 (chatData noon (demo_config\<lparr> saveFormat := x \<rparr>) hi_hello))] \<rparr>)"
    if "x \<noteq> Some ''markdown''" for x
    using save_format_choice [OF r [of x], of noon hi_hello None] that
    unfolding d
    by (simp add: live_started t disk_join path_chat disk_write_ok normal_chat dirname_chat)
  have k: "saveChat disk_ops key_env noon (started key_env demo_config) hi_hello None empty_disk
      = (Inr ''chats/2024-05-06T12-00-00-000Z-chat.md'',
         \<lparr> dirs = [''chats'', ''.''],
           files = [(''chats/2024-05-06T12-00-00-000Z-chat.md'',
                     markdownContent noon demo_config hi_hello)] \<rparr>)"
    using save_format_choice [OF r [of "Some ''markdown''"], of noon hi_hello None]
      d [of "Some ''markdown''"]
    unfolding e
    by (simp add: live_started t f disk_join pm disk_write_ok nm dm)
  show ?thesis
    using j [of "Some ''yaml''"] j [of None] j [of "Some []"] k r [of "Some ''yaml''"]
    by (simp add: read_file_def normal_chat nm)
qed

subsection \<open>C8: the json transcript read back\<close>

text \<open>
  C8. Take a format other than markdown, and any file system on which a text that
  \<^verbatim>\<open>writeFileSync\<close> wrote without an error is the text read at the same path. Whenever
  \<^verbatim>\<open>saveChat\<close> returns a path, it is the path of the file name in the save directory, and
  the file at that path holds a text that \<^verbatim>\<open>JSON.parse\<close> reads as an object whose
  \<^verbatim>\<open>messages\<close> are the messages of the conversation, with their roles and contents, in
  their order, and whose \<^verbatim>\<open>provider\<close> and \<^verbatim>\<open>model\<close> are those of the configuration that
  is live at the save.
\<close>

theorem json_transcript_round_trip:
  assumes "saveFormat (live w) \<noteq> Some ''markdown''"
    and "\<forall>d p t d'. writeFileSync ops d p t = (None, d') \<longrightarrow> rd d' p = Some t"
    and "saveChat ops env clk w C title fs = (Inr P, fs')"
  shows "P = path_join ops (save_dir env (live w)) (filename clk (live w) title)
         \<and> (\<exists>T obj. rd fs' P = Some T \<and> JSON_parse T = Some obj
               \<and> field ''messages'' obj = Some (JArr (map message_json C))
               \<and> Option.bind (field ''messages'' obj) messages_of_json = Some C
               \<and> field ''provider'' obj = Some (JStr (provider_name (provider (live w))))
               \<and> field ''model'' obj = Some (JStr (model (live w))))"
proof -
  let ?P = "path_join ops (save_dir env (live w)) (filename clk (live w) title)"
  let ?T = "file_content clk (live w) C"
  obtain fsm where w: "writeFileSync ops fsm ?P ?T = (None, fs')" and p: "P = ?P"
    using saveChat_Inr [OF assms(3)] by blast
  have r: "rd fs' P = Some ?T"
    using assms(2) w p by blast
  have a: "?T = stringify 0 (chatData clk (live w) C)"
    using assms(1) by (simp add: file_content_def formatToUse_def)
  have b: "JSON_parse ?T = Some (chatData clk (live w) C)"
    unfolding a by (rule JSON_parse_stringify)
  have c: "Option.bind (field ''messages'' (chatData clk (live w) C)) messages_of_json = Some C"
    by (simp add: chatData_def field_def messages_of_json_map)
  have c': "field ''messages'' (chatData clk (live w) C) = Some (JArr (map message_json C))"
    by (simp add: chatData_def field_def)
  have d: "field ''provider'' (chatData clk (live w) C) = Some (JStr (provider_name (provider (live w))))"
    by (simp add: chatData_def field_def)
  have e: "field ''model'' (chatData clk (live w) C) = Some (JStr (model (live w)))"
    by (simp add: chatData_def field_def)
  from p r b c c' d e show ?thesis by blast
qed

theorem json_transcript_round_trip_witness:
  "saveFormat (live running) \<noteq> Some ''markdown''
   \<and> writeFileSync disk_ops \<lparr> dirs = [''chats'', ''.''], files = [] \<rparr>
         ''chats/2024-05-06T12-00-00-000Z-chat.json'' (file_content noon (live running) hi_hello)
       = (None, \<lparr> dirs = [''chats'', ''.''],
                  files = [(''chats/2024-05-06T12-00-00-000Z-chat.json'',
                            file_content noon (live running) hi_hello)] \<rparr>)
   \<and> saveChat disk_ops key_env noon running hi_hello None empty_disk
       = (Inr ''chats/2024-05-06T12-00-00-000Z-chat.json'',
          \<lparr> dirs = [''chats'', ''.''],
            files = [(''chats/2024-05-06T12-00-00-000Z-chat.json'',
                      file_content noon (live running) hi_hello)] \<rparr>)
   \<and> (\<exists>T obj. read_file \<lparr> dirs = [''chats'', ''.''],
                       files = [(''chats/2024-05-06T12-00-00-000Z-chat.json'',
                                 file_content noon (live running) hi_hello)] \<rparr>
                  ''chats/2024-05-06T12-00-00-000Z-chat.json'' = Some T
         \<and> JSON_parse T = Some obj
         \<and> Option.bind (field ''messages'' obj) messages_of_json = Some hi_hello
         \<and> field ''provider'' obj = Some (JStr ''anthropic'')
         \<and> field ''model'' obj = Some (JStr ''claude-3-opus-20240229''))"
proof -
  have a: "saveFormat (live running) \<noteq> Some ''markdown''"
    by (simp add: live_running defaultConfig_def key_env_def)
  have r: "(if \<not> existsSync disk_ops empty_disk (save_dir key_env (live running))
            then mkdirSync disk_ops empty_disk (save_dir key_env (live running))
            else (None, empty_disk))
           = (None, \<lparr> dirs = [''chats'', ''.''], files = [] \<rparr>)"
    unfolding save_dir_running by (rule ready_empty_disk)
  have s: "saveChat disk_ops key_env noon running hi_hello None empty_disk
       = (Inr ''chats/2024-05-06T12-00-00-000Z-chat.json'',
          \<lparr> dirs = [''chats'', ''.''],
            files = [(''chats/2024-05-06T12-00-00-000Z-chat.json'',
                      file_content noon (live running) hi_hello)] \<rparr>)"
    using saveChat_ready [OF r, of noon hi_hello None]
    by (simp add: save_dir_running name_running disk_join path_chat disk_write_ok normal_chat
        dirname_chat)
  have m: "model (live running) = ''claude-3-opus-20240229''"
    "provider_name (provider (live running)) = ''anthropic''"
    by (simp_all add: live_running defaultConfig_def)
  have st: "\<forall>d p t d'. writeFileSync disk_ops d p t = (None, d') \<longrightarrow> read_file d' p = Some t"
    using disk_ops_stores by blast
  have q: "path_join disk_ops (save_dir key_env (live running)) (filename noon (live running) None)
             = ''chats/2024-05-06T12-00-00-000Z-chat.json''"
    by (simp only: save_dir_running name_running disk_join path_chat)
  have c: "\<exists>T obj. read_file \<lparr> dirs = [''chats'', ''.''],
                       files = [(''chats/2024-05-06T12-00-00-000Z-chat.json'',
                                 file_content noon (live running) hi_hello)] \<rparr>
                  ''chats/2024-05-06T12-00-00-000Z-chat.json'' = Some T
         \<and> JSON_parse T = Some obj
         \<and> Option.bind (field ''messages'' obj) messages_of_json = Some hi_hello
         \<and> field ''provider'' obj = Some (JStr ''anthropic'')
         \<and> field ''model'' obj = Some (JStr ''claude-3-opus-20240229'')"
    using json_transcript_round_trip [where rd = read_file, OF a st s]
    unfolding q m by blast
  have wr: "writeFileSync disk_ops \<lparr> dirs = [''chats'', ''.''], files = [] \<rparr>
         ''chats/2024-05-06T12-00-00-000Z-chat.json'' (file_content noon (live running) hi_hello)
       = (None, \<lparr> dirs = [''chats'', ''.''],
                  files = [(''chats/2024-05-06T12-00-00-000Z-chat.json'',
                            file_content noon (live running) hi_hello)] \<rparr>)"
    by (simp add: disk_write_ok normal_chat dirname_chat)
  show ?thesis
    using a wr s c by blast
qed

section \<open>Settings\<close>

subsection \<open>C9: input that is not a number\<close>




subsection \<open>C10: the input 0\<close>

text \<open>
  C10. The input \<^verbatim>\<open>0\<close> is treated as input that is not a number: saving the settings
  with \<^verbatim>\<open>0\<close> in both fields gives the temperature 0.7 and maxTokens 1000. Whatever the
  inputs, the saved temperature and maxTokens are never zero.
\<close>

theorem settings_zero:
  "temperature (live (snd (saveSettings ctor env (f\<lparr> f_temperature := ''0'', f_maxTokens := ''0'' \<rparr>) w)))
     = Num (Finite (7 / 10))
   \<and> maxTokens (live (snd (saveSettings ctor env (f\<lparr> f_temperature := ''0'', f_maxTokens := ''0'' \<rparr>) w)))
     = Num (Finite 1000)
   \<and> temperature (live (snd (saveSettings ctor env f w))) \<noteq> Num (Finite 0)
   \<and> maxTokens (live (snd (saveSettings ctor env f w))) \<noteq> Num (Finite 0)"
proof -
  have a: "temperature (live (snd (saveSettings ctor env (f\<lparr> f_temperature := ''0'', f_maxTokens := ''0'' \<rparr>) w)))
     = Num (Finite (7 / 10))"
    by (simp add: temperature_saveSettings parseFloat_zero num_or_def)
  have b: "maxTokens (live (snd (saveSettings ctor env (f\<lparr> f_temperature := ''0'', f_maxTokens := ''0'' \<rparr>) w)))
     = Num (Finite 1000)"
    by (simp add: maxTokens_saveSettings parseInt_zero num_or_def)
  have c: "temperature (live (snd (saveSettings ctor env f w))) \<noteq> Num (Finite 0)"
    by (simp add: temperature_saveSettings json_num_or_nonzero)
  have d: "maxTokens (live (snd (saveSettings ctor env f w))) \<noteq> Num (Finite 0)"
    by (simp add: maxTokens_saveSettings json_num_or_nonzero)
  from a b c d show ?thesis by blast
qed

end
